theory Spec2Isabelle
  imports Complex_Main
begin

section \<open>img-router: a shallow embedding of main.ts\<close>

text \<open>
  The gateway is a TypeScript program. A JavaScript string is a sequence of UTF-16 code
  units, and every string operation of the source (\<^verbatim>\<open>startsWith\<close>,
  \<^verbatim>\<open>substring\<close>, \<^verbatim>\<open>split\<close>, \<^verbatim>\<open>trim\<close>, the regular
  expressions without the \<^verbatim>\<open>u\<close> flag) works on code units. A string is
  therefore a list of code units, each a natural number; \<open>str\<close> turns an ASCII literal
  into its code units.
\<close>

subsection \<open>Strings\<close>

type_synonym jstring = "nat list"

definition str :: "string \<Rightarrow> jstring" where
  "str s = map of_char s"

text \<open>\<^verbatim>\<open>s.startsWith(p)\<close>\<close>

definition startsWith :: "jstring \<Rightarrow> jstring \<Rightarrow> bool" where
  "startsWith s p = (take (length p) s = p)"

text \<open>\<^verbatim>\<open>s.substring(a, b)\<close>: the arguments are swapped when \<open>a > b\<close>, and clamped to
  the length by \<open>take\<close> and \<open>drop\<close>. \<^verbatim>\<open>s.substring(a)\<close> is \<open>substring_from\<close>.\<close>

definition substring :: "jstring \<Rightarrow> nat \<Rightarrow> nat \<Rightarrow> jstring" where
  "substring s a b = take (max a b - min a b) (drop (min a b) s)"

definition substring_from :: "jstring \<Rightarrow> nat \<Rightarrow> jstring" where
  "substring_from s a = drop a s"

text \<open>A string is truthy when it is not empty.\<close>

definition truthy_str :: "jstring \<Rightarrow> bool" where
  "truthy_str s = (s \<noteq> [])"

subsection \<open>The two credential patterns\<close>

text \<open>
  Both regular expressions of \<^verbatim>\<open>detectProvider\<close> are anchored at both ends and are
  sequences of character classes with a repetition count:
  \<^verbatim>\<open>/^[0-9a-f]{8}-[0-9a-f]{4}-[0-9a-f]{4}-[0-9a-f]{4}-[0-9a-f]{12}$/i\<close> and
  \<^verbatim>\<open>/^[a-zA-Z0-9]{30,60}$/\<close>. A class is a list of inclusive code-unit ranges; an item is
  a class with its least and greatest count. \<open>rx_test\<close> holds when some choice of counts
  consumes the whole string, which is what the backtracking matcher of
  \<^verbatim>\<open>RegExp.prototype.test\<close> finds.

  With the \<^verbatim>\<open>i\<close> flag (and no \<^verbatim>\<open>u\<close> flag) two code units match when their
  canonical forms are equal. ECMAScript's Canonicalize maps a code unit to its upper case,
  and never maps a code unit from 128 up to one below 128; on ASCII it maps a-z to A-Z.
  Classes here hold ASCII only, so a code unit from 128 up stands for itself.
\<close>

type_synonym cclass = "(nat \<times> nat) list"

type_synonym rx_item = "cclass \<times> nat \<times> nat"

definition canonicalize :: "nat \<Rightarrow> nat" where
  "canonicalize c = (if 97 \<le> c \<and> c \<le> 122 then c - 32 else c)"

definition in_class :: "bool \<Rightarrow> cclass \<Rightarrow> nat \<Rightarrow> bool" where
  "in_class icase cl c =
     list_ex (\<lambda>(lo, hi).
        if icase then list_ex (\<lambda>d. canonicalize d = canonicalize c) [lo..<Suc hi]
        else lo \<le> c \<and> c \<le> hi) cl"

fun rx_test :: "bool \<Rightarrow> rx_item list \<Rightarrow> jstring \<Rightarrow> bool" where
  "rx_test icase [] s = (s = [])"
| "rx_test icase ((cl, lo, hi) # its) s =
     list_ex (\<lambda>n. n \<le> length s \<and> list_all (in_class icase cl) (take n s)
                  \<and> rx_test icase its (drop n s)) [lo..<Suc hi]"

definition hex_class :: cclass where
  "hex_class = [(48, 57), (97, 102)]"

definition hyphen :: rx_item where
  "hyphen = ([(45, 45)], 1, 1)"

definition uuidRegex :: "rx_item list" where
  "uuidRegex = [(hex_class, 8, 8), hyphen, (hex_class, 4, 4), hyphen, (hex_class, 4, 4),
                hyphen, (hex_class, 4, 4), hyphen, (hex_class, 12, 12)]"

definition giteeRegex :: "rx_item list" where
  "giteeRegex = [([(97, 122), (65, 90), (48, 57)], 30, 60)]"

subsection \<open>detectProvider\<close>

datatype provider = VolcEngine | Gitee | ModelScope | HuggingFace | Unknown

text \<open>A call \<^verbatim>\<open>logProviderRouting(provider, keyPrefix)\<close> of the logger.\<close>

type_synonym routing_event = "provider \<times> jstring"

text \<open>
  \<^verbatim>\<open>detectProvider(apiKey)\<close> returns the provider; the second component lists the calls
  of \<^verbatim>\<open>logProviderRouting\<close> it made, in order. The function has no \<^verbatim>\<open>throw\<close>.
\<close>

definition detectProvider :: "jstring \<Rightarrow> provider \<times> routing_event list" where
  "detectProvider apiKey =
     (if \<not> truthy_str apiKey then (Unknown, [])
      else if startsWith apiKey (str ''hf_'')
        then (HuggingFace, [(HuggingFace, substring apiKey 0 4)])
      else if startsWith apiKey (str ''ms-'')
        then (ModelScope, [(ModelScope, substring apiKey 0 4)])
      else if rx_test True uuidRegex apiKey
        then (VolcEngine, [(VolcEngine, substring apiKey 0 4)])
      else if rx_test False giteeRegex apiKey
        then (Gitee, [(Gitee, substring apiKey 0 4)])
      else (Unknown, [(Unknown, substring apiKey 0 4)]))"

subsection \<open>The credential shapes in the specification's words\<close>

definition is_hex :: "nat \<Rightarrow> bool" where
  "is_hex c = ((48 \<le> c \<and> c \<le> 57) \<or> (97 \<le> c \<and> c \<le> 102) \<or> (65 \<le> c \<and> c \<le> 70))"

definition is_alnum :: "nat \<Rightarrow> bool" where
  "is_alnum c = ((65 \<le> c \<and> c \<le> 90) \<or> (97 \<le> c \<and> c \<le> 122) \<or> (48 \<le> c \<and> c \<le> 57))"

text \<open>Canonical UUID form: hex groups of 8, 4, 4, 4 and 12 digits, in either case,
  separated by hyphens (code unit 45), and nothing else.\<close>

definition uuid_form :: "jstring \<Rightarrow> bool" where
  "uuid_form k =
     (length k = 36
      \<and> list_all is_hex (take 8 k) \<and> k ! 8 = 45
      \<and> list_all is_hex (take 4 (drop 9 k)) \<and> k ! 13 = 45
      \<and> list_all is_hex (take 4 (drop 14 k)) \<and> k ! 18 = 45
      \<and> list_all is_hex (take 4 (drop 19 k)) \<and> k ! 23 = 45
      \<and> list_all is_hex (drop 24 k))"

text \<open>The whole string is 30 to 60 letters and digits.\<close>

definition alnum_30_60 :: "jstring \<Rightarrow> bool" where
  "alnum_30_60 k = (30 \<le> length k \<and> length k \<le> 60 \<and> list_all is_alnum k)"

text \<open>The rule list of the router, first match wins.\<close>

definition classify_rules :: "jstring \<Rightarrow> provider" where
  "classify_rules k =
     (if k = [] then Unknown
      else if take 3 k = [104, 102, 95] then HuggingFace
      else if take 3 k = [109, 115, 45] then ModelScope
      else if uuid_form k then VolcEngine
      else if alnum_30_60 k then Gitee
      else Unknown)"

subsection \<open>Chat messages\<close>

text \<open>
  \<^verbatim>\<open>TextContentItem\<close> is \<^verbatim>\<open>{type: "text", text}\<close>; \<^verbatim>\<open>ImageUrlContentItem\<close> is
  \<^verbatim>\<open>{type: "image_url", image_url?: {url}}\<close>, whose \<^verbatim>\<open>image_url\<close> may be absent.
  The content of a message is a string or a list of items.
\<close>

datatype content_item = TextItem jstring | ImageUrlItem "jstring option"

datatype msg_content = Text jstring | Items "content_item list"

record message =
  role :: jstring
  content :: msg_content

fun is_text :: "content_item \<Rightarrow> bool" where
  "is_text (TextItem t) = True"
| "is_text (ImageUrlItem u) = False"

fun is_image_url :: "content_item \<Rightarrow> bool" where
  "is_image_url (TextItem t) = False"
| "is_image_url (ImageUrlItem u) = True"

text \<open>\<^verbatim>\<open>item.image_url?.url || ""\<close>\<close>

fun url_or_empty :: "content_item \<Rightarrow> jstring" where
  "url_or_empty (ImageUrlItem (Some u)) = (if truthy_str u then u else [])"
| "url_or_empty (ImageUrlItem None) = []"
| "url_or_empty (TextItem t) = []"

text \<open>\<^verbatim>\<open>items.filter(item => item.type === "image_url").map(item => item.image_url?.url || "").filter(Boolean)\<close>\<close>

definition image_urls :: "content_item list \<Rightarrow> jstring list" where
  "image_urls items = filter truthy_str (map url_or_empty (filter is_image_url items))"

text \<open>\<^verbatim>\<open>items.find(item => item.type === "text")?.text || ""\<close>\<close>

definition first_text :: "content_item list \<Rightarrow> jstring" where
  "first_text items =
     (case find is_text items of
        Some (TextItem t) \<Rightarrow> (if truthy_str t then t else [])
      | _ \<Rightarrow> [])"

subsection \<open>Markdown images in a string\<close>

text \<open>
  \<^verbatim>\<open>content.matchAll(/!\[.*?\]\(((?:https?:\/\/|data:image\/)[^\)]+)\)/g)\<close>, one function
  per part of the expression. Code unit 41 is the closing parenthesis; without the
  \<^verbatim>\<open>s\<close> flag the dot matches every code unit but the four line terminators.
\<close>

definition is_line_terminator :: "nat \<Rightarrow> bool" where
  "is_line_terminator c = (c = 10 \<or> c = 13 \<or> c = 8232 \<or> c = 8233)"

text \<open>\<^verbatim>\<open>(?:https?:\/\/|data:image\/)\<close> at the head of \<open>t\<close>: the number of code units it
  matches. The alternatives begin with different code units, and the optional \<^verbatim>\<open>s\<close>
  is followed by a colon, so at most one way of matching exists.\<close>

definition scheme_len :: "jstring \<Rightarrow> nat option" where
  "scheme_len t =
     (if startsWith t (str ''https://'') then Some 8
      else if startsWith t (str ''http://'') then Some 7
      else if startsWith t (str ''data:image/'') then Some 11
      else None)"

text \<open>\<^verbatim>\<open>\]\(((?:https?:\/\/|data:image\/)[^\)]+)\)\<close> at the head of \<open>t\<close>: the captured
  group and the text after the match. The greedy \<^verbatim>\<open>[^\)]+\<close> takes the longest run
  without a closing parenthesis; a shorter run is followed by a code unit of the run, never by
  the parenthesis, so backtracking into it finds nothing.\<close>

definition match_target :: "jstring \<Rightarrow> (jstring \<times> jstring) option" where
  "match_target t =
     (if startsWith t (str '']('') then
        (case scheme_len (drop 2 t) of
           None \<Rightarrow> None
         | Some n \<Rightarrow>
             (let body = drop (2 + n) t;
                  run = takeWhile (\<lambda>c. c \<noteq> 41) body;
                  after = dropWhile (\<lambda>c. c \<noteq> 41) body
              in if run \<noteq> [] \<and> after \<noteq> [] then Some (take n (drop 2 t) @ run, tl after)
                 else None))
      else None)"

text \<open>\<^verbatim>\<open>.*?\<close> and what follows it: the lazy quantifier tries the rest of the expression
  first and consumes one more code unit only when that fails.\<close>

fun match_lazy :: "jstring \<Rightarrow> (jstring \<times> jstring) option" where
  "match_lazy [] = match_target []"
| "match_lazy (c # t) =
     (case match_target (c # t) of
        Some r \<Rightarrow> Some r
      | None \<Rightarrow> if is_line_terminator c then None else match_lazy t)"

text \<open>The whole expression at the head of \<open>t\<close>.\<close>

definition match_image :: "jstring \<Rightarrow> (jstring \<times> jstring) option" where
  "match_image t = (if startsWith t (str ''!['') then match_lazy (drop 2 t) else None)"

lemma match_target_shorter: "match_target t = Some (cap, rest) \<Longrightarrow> length rest < length t"
proof -
  assume a: "match_target t = Some (cap, rest)"
  then obtain n where r: "rest = tl (dropWhile (\<lambda>c. c \<noteq> 41) (drop (2 + n) t))"
      and ne: "dropWhile (\<lambda>c. c \<noteq> 41) (drop (2 + n) t) \<noteq> []"
    by (auto simp: match_target_def Let_def split: if_splits option.splits)
  have "length (dropWhile (\<lambda>c. c \<noteq> 41) (drop (2 + n) t)) \<le> length (drop (2 + n) t)"
    by (rule length_dropWhile_le)
  with r ne show ?thesis
    by (cases "dropWhile (\<lambda>c. c \<noteq> 41) (drop (2 + n) t)") auto
qed

lemma match_lazy_shorter: "match_lazy t = Some (cap, rest) \<Longrightarrow> length rest < length t"
proof (induction t)
  case Nil
  then show ?case using match_target_shorter[of "[]" cap rest] by simp
next
  case (Cons c t)
  show ?case
  proof (cases "match_target (c # t)")
    case None
    with Cons.prems have "match_lazy t = Some (cap, rest)" by (simp split: if_splits)
    then have "length rest < length t" by (rule Cons.IH)
    then show ?thesis by simp
  next
    case (Some r)
    with Cons.prems have "match_target (c # t) = Some (cap, rest)" by simp
    then show ?thesis by (rule match_target_shorter)
  qed
qed

lemma match_image_shorter: "match_image t = Some (cap, rest) \<Longrightarrow> length rest < length t"
proof -
  assume "match_image t = Some (cap, rest)"
  then have "match_lazy (drop 2 t) = Some (cap, rest)"
    by (simp add: match_image_def split: if_splits)
  then have "length rest < length (drop 2 t)" by (rule match_lazy_shorter)
  then show ?thesis by simp
qed

text \<open>\<^verbatim>\<open>matchAll\<close> with the \<^verbatim>\<open>g\<close> flag: the leftmost match, then the search goes on
  after it; where the expression does not match, the search moves one code unit on. The value is
  the list of the first groups, \<^verbatim>\<open>match[1]\<close>.\<close>

function matchAll_images :: "jstring \<Rightarrow> jstring list" where
  "matchAll_images [] =
     (case match_image [] of
        Some (cap, rest) \<Rightarrow> cap # matchAll_images rest
      | None \<Rightarrow> [])"
| "matchAll_images (c # t) =
     (case match_image (c # t) of
        Some (cap, rest) \<Rightarrow> cap # matchAll_images rest
      | None \<Rightarrow> matchAll_images t)"
  by pat_completeness auto
termination
  by (relation "measure length") (auto dest: match_image_shorter)

subsection \<open>extractPromptAndImages\<close>

text \<open>The first loop runs \<open>i\<close> from \<open>length - 1\<close> down to 0 and stops at the first message
  whose role is \<^verbatim>\<open>"user"\<close>. \<open>last_user_below ms n\<close> is that loop when the indices still to
  visit are \<open>n - 1, \<dots>, 0\<close>; \<open>None\<close> stands for the \<^verbatim>\<open>lastUserIndex\<close> of -1.\<close>

fun last_user_below :: "message list \<Rightarrow> nat \<Rightarrow> nat option" where
  "last_user_below ms 0 = None"
| "last_user_below ms (Suc i) =
     (if role (ms ! i) = str ''user'' then Some i else last_user_below ms i)"

text \<open>What the body of the first loop takes from the user message: the prompt and the
  images of the current turn.\<close>

fun user_prompt :: "msg_content \<Rightarrow> jstring" where
  "user_prompt (Text s) = s"
| "user_prompt (Items items) = first_text items"

fun user_images :: "msg_content \<Rightarrow> jstring list" where
  "user_images (Text s) = []"
| "user_images (Items items) = image_urls items"

text \<open>\<^verbatim>\<open>foundInMsg\<close> of the second loop.\<close>

fun found_in_msg :: "msg_content \<Rightarrow> jstring list" where
  "found_in_msg (Text s) = matchAll_images s"
| "found_in_msg (Items items) = image_urls items"

text \<open>The second loop runs \<open>i\<close> from \<open>lastUserIndex - 1\<close> down to 0 and stops at the first
  message with images; \<open>history_below ms n\<close> is that loop when the indices still to visit are
  \<open>n - 1, \<dots>, 0\<close>, and its value is \<^verbatim>\<open>historicalImages\<close>.\<close>

fun history_below :: "message list \<Rightarrow> nat \<Rightarrow> jstring list" where
  "history_below ms 0 = []"
| "history_below ms (Suc i) =
     (let foundInMsg = found_in_msg (content (ms ! i))
      in if length foundInMsg > 0 then foundInMsg else history_below ms i)"

text \<open>The third loop: \<^verbatim>\<open>if (!finalImages.includes(img)) finalImages.push(img)\<close>.\<close>

fun push_missing :: "jstring list \<Rightarrow> jstring list \<Rightarrow> jstring list" where
  "push_missing finalImages [] = finalImages"
| "push_missing finalImages (img # historicalImages) =
     push_missing (if img \<in> set finalImages then finalImages else finalImages @ [img])
        historicalImages"

record extraction =
  prompt :: jstring
  images :: "jstring list"

definition extractPromptAndImages :: "message list \<Rightarrow> extraction" where
  "extractPromptAndImages messages =
     (case last_user_below messages (length messages) of
        None \<Rightarrow> \<lparr>prompt = [], images = push_missing [] []\<rparr>
      | Some lastUserIndex \<Rightarrow>
          \<lparr>prompt = user_prompt (content (messages ! lastUserIndex)),
           images = push_missing (user_images (content (messages ! lastUserIndex)))
                      (history_below messages lastUserIndex)\<rparr>)"

subsection \<open>The markdown of the generated images\<close>

text \<open>
  \<^verbatim>\<open>handleVolcEngine\<close> and both modes of \<^verbatim>\<open>handleGitee\<close> end with the same
  expression over the entries of the backend's \<^verbatim>\<open>data\<close> array, read at the type the source
  gives them, \<^verbatim>\<open>{ url?: string; b64_json?: string }\<close>:
  \<^verbatim>\<open>imageData.map(img => ...).filter(Boolean).join("\n\n") || "..."\<close>.
  The placeholder is a string of six CJK characters, given by its code units.
\<close>

record api_image =
  url :: "jstring option"
  b64_json :: "jstring option"

text \<open>An optional string is truthy when it is present and not empty.\<close>

definition truthy_opt :: "jstring option \<Rightarrow> bool" where
  "truthy_opt v = (case v of None \<Rightarrow> False | Some s \<Rightarrow> truthy_str s)"

definition string_of :: "jstring option \<Rightarrow> jstring" where
  "string_of v = (case v of None \<Rightarrow> [] | Some s \<Rightarrow> s)"

text \<open>The callback of \<^verbatim>\<open>map\<close>.\<close>

definition format_image :: "api_image \<Rightarrow> jstring" where
  "format_image img =
     (if truthy_opt (b64_json img)
        then str ''![Generated Image](data:image/png;base64,'' @ string_of (b64_json img) @ str '')''
      else if truthy_opt (url img)
        then str ''![Generated Image]('' @ string_of (url img) @ str '')''
      else [])"

text \<open>\<^verbatim>\<open>xs.join(sep)\<close>\<close>

fun js_join :: "jstring \<Rightarrow> jstring list \<Rightarrow> jstring" where
  "js_join sep [] = []"
| "js_join sep [x] = x"
| "js_join sep (x # y # ys) = x @ sep @ js_join sep (y # ys)"

text \<open>\<^verbatim>\<open>a || b\<close> on strings\<close>

definition or_else :: "jstring \<Rightarrow> jstring \<Rightarrow> jstring" where
  "or_else a b = (if truthy_str a then a else b)"

definition failure_placeholder :: jstring where
  "failure_placeholder = [22270, 29255, 29983, 25104, 22833, 36133]"

definition blank_line :: jstring where
  "blank_line = [10, 10]"

definition format_images :: "api_image list \<Rightarrow> jstring" where
  "format_images imageData =
     or_else (js_join blank_line (filter truthy_str (map format_image imageData)))
       failure_placeholder"

subsection \<open>JSON values\<close>

text \<open>
  The value of \<^verbatim>\<open>JSON.parse\<close> or of \<^verbatim>\<open>response.json()\<close>. A number is a finite double,
  hence a rational; an object is the list of its keys with their values, each key once. The
  value of a JavaScript expression is a JSON value or \<^verbatim>\<open>undefined\<close>, which is \<open>None\<close>.
\<close>

datatype json =
    JNull
  | JBool bool
  | JNum rat
  | JStr jstring
  | JArr "json list"
  | JObj "(jstring \<times> json) list"

fun truthy :: "json \<Rightarrow> bool" where
  "truthy JNull = False"
| "truthy (JBool b) = b"
| "truthy (JNum n) = (n \<noteq> 0)"
| "truthy (JStr s) = (s \<noteq> [])"
| "truthy (JArr xs) = True"
| "truthy (JObj kvs) = True"

text \<open>\<^verbatim>\<open>v.name\<close> for a value that is not \<^verbatim>\<open>null\<close> and a name that no string, number
  or array has as a property of its own: only an object can hold it.\<close>

fun get_prop :: "json \<Rightarrow> jstring \<Rightarrow> json option" where
  "get_prop (JObj kvs) name = map_of kvs name"
| "get_prop JNull name = None"
| "get_prop (JBool b) name = None"
| "get_prop (JNum n) name = None"
| "get_prop (JStr s) name = None"
| "get_prop (JArr xs) name = None"

text \<open>\<^verbatim>\<open>v[0]\<close> for a value that is not \<^verbatim>\<open>null\<close>: the first element of an array, the first
  code unit of a string, the property \<^verbatim>\<open>"0"\<close> of an object.\<close>

fun get_index0 :: "json \<Rightarrow> json option" where
  "get_index0 (JArr []) = None"
| "get_index0 (JArr (x # xs)) = Some x"
| "get_index0 (JStr []) = None"
| "get_index0 (JStr (c # cs)) = Some (JStr [c])"
| "get_index0 (JObj kvs) = map_of kvs (str ''0'')"
| "get_index0 JNull = None"
| "get_index0 (JBool b) = None"
| "get_index0 (JNum n) = None"

subsection \<open>extractImageUrlFromSSE\<close>

text \<open>\<^verbatim>\<open>s.split(sep)\<close> for a separator of one code unit; \<open>cur\<close> holds the current piece,
  reversed. The empty string splits into one empty piece.\<close>

fun split_acc :: "nat \<Rightarrow> jstring \<Rightarrow> jstring \<Rightarrow> jstring list" where
  "split_acc sep cur [] = [rev cur]"
| "split_acc sep cur (c # cs) =
     (if c = sep then rev cur # split_acc sep [] cs else split_acc sep (c # cur) cs)"

definition split_on :: "nat \<Rightarrow> jstring \<Rightarrow> jstring list" where
  "split_on sep s = split_acc sep [] s"

text \<open>\<^verbatim>\<open>s.trim()\<close> removes white space and line terminators at both ends: tab, line feed,
  vertical tab, form feed, carriage return, space, no-break space, the Unicode space
  separators, the line and paragraph separators and the byte order mark.\<close>

definition is_js_space :: "nat \<Rightarrow> bool" where
  "is_js_space c =
     ((9 \<le> c \<and> c \<le> 13) \<or> c = 32 \<or> c = 160 \<or> c = 5760 \<or> (8192 \<le> c \<and> c \<le> 8202)
      \<or> c = 8232 \<or> c = 8233 \<or> c = 8239 \<or> c = 8287 \<or> c = 12288 \<or> c = 65279)"

definition trim :: "jstring \<Rightarrow> jstring" where
  "trim s = rev (dropWhile is_js_space (rev (dropWhile is_js_space s)))"

text \<open>\<^verbatim>\<open>data && data[0] && data[0].url\<close>: the value the function returns when it is truthy.\<close>

definition first_url :: "json \<Rightarrow> json option" where
  "first_url data =
     (if truthy data then
        (case get_index0 data of
           None \<Rightarrow> None
         | Some x \<Rightarrow>
             if truthy x then
               (case get_prop x (str ''url'') of
                  None \<Rightarrow> None
                | Some u \<Rightarrow> if truthy u then Some u else None)
             else None)
      else None)"

text \<open>The only \<^verbatim>\<open>throw\<close> of the function: \<^verbatim>\<open>new Error("HuggingFace API ...")\<close> on an
  event of type \<^verbatim>\<open>error\<close>.\<close>

datatype sse_error = SseErrorEvent

text \<open>
  The loop over the lines, with the flag \<^verbatim>\<open>isCompleteEvent\<close>. \<open>parse\<close> is
  \<^verbatim>\<open>JSON.parse\<close>, \<open>None\<close> where it throws: the \<^verbatim>\<open>catch\<close> logs and the loop goes on.
  \<open>Inr None\<close> is the \<^verbatim>\<open>return null\<close> after the loop.
\<close>

fun sse_lines :: "(jstring \<Rightarrow> json option) \<Rightarrow> jstring list \<Rightarrow> bool \<Rightarrow> sse_error + json option" where
  "sse_lines parse [] isCompleteEvent = Inr None"
| "sse_lines parse (line # lines) isCompleteEvent =
     (if startsWith line (str ''event:'') then
        (let eventType = trim (substring_from line 6)
         in if eventType = str ''complete'' then sse_lines parse lines True
            else if eventType = str ''error'' then Inl SseErrorEvent
            else sse_lines parse lines False)
      else if startsWith line (str ''data:'') \<and> isCompleteEvent then
        (let jsonData = trim (substring_from line 5)
         in case parse jsonData of
              None \<Rightarrow> sse_lines parse lines isCompleteEvent
            | Some data \<Rightarrow>
                (case first_url data of
                   Some u \<Rightarrow> Inr (Some u)
                 | None \<Rightarrow> sse_lines parse lines isCompleteEvent))
      else sse_lines parse lines isCompleteEvent)"

definition extractImageUrlFromSSE :: "(jstring \<Rightarrow> json option) \<Rightarrow> jstring \<Rightarrow> sse_error + json option" where
  "extractImageUrlFromSSE parse sseStream = sse_lines parse (split_on 10 sseStream) False"

subsection \<open>The event stream in the specification's words\<close>

text \<open>The type of an \<^verbatim>\<open>event:\<close> line.\<close>

definition event_type :: "jstring \<Rightarrow> jstring option" where
  "event_type line =
     (if startsWith line (str ''event:'') then Some (trim (drop 6 line)) else None)"

text \<open>The type of the most recently seen \<^verbatim>\<open>event:\<close> line among the lines read so far.\<close>

fun last_event :: "jstring list \<Rightarrow> jstring option" where
  "last_event [] = None"
| "last_event (line # lines) =
     (case last_event lines of
        Some t \<Rightarrow> Some t
      | None \<Rightarrow> event_type line)"

text \<open>The payload of a \<^verbatim>\<open>data:\<close> line: the \<^verbatim>\<open>url\<close> field of the first element of the
  JSON array it holds.\<close>

definition payload_url :: "(jstring \<Rightarrow> json option) \<Rightarrow> jstring \<Rightarrow> json option" where
  "payload_url parse line =
     (if startsWith line (str ''data:'') then
        (case parse (trim (drop 5 line)) of None \<Rightarrow> None | Some data \<Rightarrow> first_url data)
      else None)"

text \<open>What line \<open>i\<close> of the stream decides: a failure when it is an event of type
  \<^verbatim>\<open>error\<close>; the URL of its payload when the most recent event before it has type
  \<^verbatim>\<open>complete\<close>; nothing otherwise.\<close>

datatype verdict = Raise | Url json

definition line_verdict :: "(jstring \<Rightarrow> json option) \<Rightarrow> jstring list \<Rightarrow> nat \<Rightarrow> verdict option" where
  "line_verdict parse ls i =
     (if event_type (ls ! i) = Some (str ''error'') then Some Raise
      else if last_event (take i ls) = Some (str ''complete'')
        then map_option Url (payload_url parse (ls ! i))
      else None)"

text \<open>The first verdict in the order of the lines decides; without one the result is
  \<^verbatim>\<open>null\<close>.\<close>

fun first_verdict :: "verdict option list \<Rightarrow> sse_error + json option" where
  "first_verdict [] = Inr None"
| "first_verdict (Some Raise # vs) = Inl SseErrorEvent"
| "first_verdict (Some (Url u) # vs) = Inr (Some u)"
| "first_verdict (None # vs) = first_verdict vs"

definition stream_verdicts :: "(jstring \<Rightarrow> json option) \<Rightarrow> jstring list \<Rightarrow> verdict option list" where
  "stream_verdicts parse ls = map (line_verdict parse ls) [0..<length ls]"

subsection \<open>HTTP, the runtime and the trace of effects\<close>

text \<open>
  An adapter talks to the world through \<^verbatim>\<open>fetchWithTimeout\<close> and \<^verbatim>\<open>setTimeout\<close>.
  The model threads a trace: the list of the network calls with their results, the sleeps, the
  warnings and the routing events, in the order the program makes them. The answer of the world to a request may
  depend on everything that happened before, so the network is a function of the trace and the
  request. \<^verbatim>\<open>fetchWithTimeout\<close> aborts a call after \<^verbatim>\<open>API_TIMEOUT_MS\<close>; an aborted
  call and a transport failure both reject, which is \<open>Rejected\<close>.

  The calls of the logger other than \<^verbatim>\<open>logProviderRouting\<close> and \<^verbatim>\<open>warn\<close> are left out:
  the logger is not among the sources and nothing reads what it returns.
\<close>

datatype http_method = GET | POST

datatype form_value = FormText jstring | FormBlob "nat list" jstring jstring

datatype body = NoBody | JsonBody json | FormBody "(jstring \<times> form_value) list"

record http_request =
  req_method :: http_method
  req_url :: jstring
  req_headers :: "(jstring \<times> jstring) list"
  req_body :: body

text \<open>A response with what its methods give: \<^verbatim>\<open>ok\<close>, \<^verbatim>\<open>status\<close>, \<^verbatim>\<open>text()\<close>,
  \<^verbatim>\<open>json()\<close> (\<open>None\<close> where it rejects), \<^verbatim>\<open>arrayBuffer()\<close> and
  \<^verbatim>\<open>headers.get("content-type")\<close>.\<close>

record http_response =
  resp_ok :: bool
  resp_status :: nat
  resp_text :: jstring
  resp_json :: "json option"
  resp_bytes :: "nat list"
  resp_content_type :: "jstring option"

datatype fetch_result = Rejected jstring | Resolved http_response

datatype event = Fetch http_request fetch_result | Sleep nat | Warn jstring | Routed provider jstring

type_synonym trace = "event list"

type_synonym network = "trace \<Rightarrow> http_request \<Rightarrow> fetch_result"

text \<open>A Number value.\<close>

datatype jsnum = NaN | PosInfinity | NegInfinity | Finite rat

text \<open>
  The parts of the JavaScript runtime that the source calls and does not define:
  the network; \<^verbatim>\<open>String(v)\<close> for a JSON value that is not a string; \<^verbatim>\<open>JSON.parse\<close>
  (\<open>None\<close> where it throws); \<^verbatim>\<open>Number(s)\<close> outside the decimal integers (see
  \<open>js_Number\<close>); \<^verbatim>\<open>btoa\<close> of a byte string and \<^verbatim>\<open>atob\<close> (\<open>None\<close> where it throws);
  \<^verbatim>\<open>Math.round(Math.random() * 2147483647)\<close>; \<^verbatim>\<open>crypto.randomUUID()\<close>; and the readings
  of \<^verbatim>\<open>Math.floor(Date.now() / 1000)\<close> while a response is built, by their number.
\<close>

record runtime =
  network :: network
  toString :: "json \<Rightarrow> jstring"
  JSON_parse :: "jstring \<Rightarrow> json option"
  Number_other :: "jstring \<Rightarrow> jsnum"
  btoa :: "nat list \<Rightarrow> jstring"
  atob :: "jstring \<Rightarrow> nat list option"
  random_seed :: nat
  randomUUID :: jstring
  clock_seconds :: "nat \<Rightarrow> nat"

definition fetchWithTimeout :: "runtime \<Rightarrow> http_request \<Rightarrow> trace \<Rightarrow> fetch_result \<times> trace" where
  "fetchWithTimeout rt request tr =
     (let r = network rt tr request in (r, tr @ [Fetch request r]))"

text \<open>The template literal \<^verbatim>\<open>${v}\<close>.\<close>

definition template :: "runtime \<Rightarrow> json option \<Rightarrow> jstring" where
  "template rt v =
     (case v of
        None \<Rightarrow> str ''undefined''
      | Some (JStr s) \<Rightarrow> s
      | Some j \<Rightarrow> toString rt j)"

text \<open>What an adapter throws. Each constructor stands for one \<^verbatim>\<open>new Error(...)\<close> of the
  source, with the values its message is built from, or for a rejection of the runtime.\<close>

datatype error =
    FetchRejected jstring
  | JsonRejected
  | TypeError
  | InvalidBase64
  | DownloadFailed nat
  | VolcEngineApiError nat jstring
  | GiteeEditApiError nat jstring
  | GiteeApiError nat jstring
  | GiteeEmptyData
  | ModelScopeSubmitError nat jstring
  | ModelScopeTaskFailed json
  | ModelScopeTaskTimeout
  | HuggingFaceConfigError
  | HuggingFaceApiError nat jstring
  | HuggingFaceResultApiError nat jstring
  | HuggingFaceNoImageUrl
  | HuggingFaceSseError
  | HuggingFaceAllFailed

subsection \<open>The request body and the configuration\<close>

text \<open>\<^verbatim>\<open>ChatRequest\<close>, with the one further key the source reads,
  \<^verbatim>\<open>reqBody["response_format"]\<close>. An absent key is \<open>None\<close>.\<close>

record chat_request =
  model :: "jstring option"
  messages :: "message list option"
  stream :: "bool option"
  size_str :: "jstring option"
  response_format :: "jstring option"

text \<open>The interfaces of config.ts: the fields the three of them share,
  \<^verbatim>\<open>ProviderConfig\<close>, \<^verbatim>\<open>GiteeProviderConfig\<close> and \<^verbatim>\<open>HuggingFaceProviderConfig\<close>.\<close>

record base_config =
  defaultModel :: jstring
  defaultSize :: jstring
  defaultEditSize :: jstring
  supportedModels :: "jstring list"

record provider_config = base_config +
  apiUrl :: jstring

record gitee_config = provider_config +
  editApiUrl :: jstring
  defaultEditModel :: jstring
  editModels :: "jstring list"

record hf_config = base_config +
  apiUrls :: "jstring list"

definition VolcEngineConfig :: provider_config where
  "VolcEngineConfig =
     \<lparr>defaultModel = str ''doubao-seedream-4-5-251128'',
      defaultSize = str ''2K'',
      defaultEditSize = str ''2K'',
      supportedModels = [str ''doubao-seedream-4-5-251128'', str ''doubao-seedream-4-0-250828''],
      apiUrl = str ''https://ark.cn-beijing.volces.com/api/v3/images/generations''\<rparr>"

definition GiteeConfig :: gitee_config where
  "GiteeConfig =
     \<lparr>defaultModel = str ''z-image-turbo'',
      defaultSize = str ''2048x2048'',
      defaultEditSize = str ''1024x1024'',
      supportedModels = [str ''z-image-turbo''],
      apiUrl = str ''https://ai.gitee.com/v1/images/generations'',
      editApiUrl = str ''https://ai.gitee.com/v1/images/edits'',
      defaultEditModel = str ''Qwen-Image-Edit'',
      editModels = [str ''Qwen-Image-Edit'', str ''HiDream-E1-Full'', str ''FLUX.1-dev'',
                    str ''HelloMeme'', str ''Kolors'', str ''OmniConsistency'']\<rparr>"

definition ModelScopeConfig :: provider_config where
  "ModelScopeConfig =
     \<lparr>defaultModel = str ''Tongyi-MAI/Z-Image-Turbo'',
      defaultSize = str ''2048x2048'',
      defaultEditSize = str ''2048x2048'',
      supportedModels = [str ''Tongyi-MAI/Z-Image-Turbo''],
      apiUrl = str ''https://api-inference.modelscope.cn/v1''\<rparr>"

definition HuggingFaceConfig :: hf_config where
  "HuggingFaceConfig =
     \<lparr>defaultModel = str ''Qwen-Image-Edit-2511'',
      defaultSize = str ''2048x2048'',
      defaultEditSize = str ''2048x2048'',
      supportedModels = [str ''z-image-turbo'', str ''Qwen-Image-Edit-2511''],
      apiUrls =
        [str ''https://luca115-z-image-turbo.hf.space'',
         str ''https://mcp-tools-z-image-turbo.hf.space'',
         str ''https://cpuai-z-image-turbo.hf.space'',
         str ''https://victor-z-image-turbo-mcp.hf.space'',
         str ''https://wavespeed-z-image-turbo.hf.space'',
         str ''https://jinguotianxin-z-image-turbo.hf.space'',
         str ''https://prithivmlmods-z-image-turbo-lora-dlc.hf.space'',
         str ''https://linoyts-z-image-portrait.hf.space'',
         str ''https://prokofyev8-z-image-portrait.hf.space'',
         str ''https://ovi054-z-image-lora.hf.space'',
         str ''https://yingzhac-z-image-nsfw.hf.space'',
         str ''https://nymbo-tools.hf.space'']\<rparr>"

text \<open>\<^verbatim>\<open>reqBody.model && supported.includes(reqBody.model) ? reqBody.model : fallback\<close>\<close>

definition choose_model :: "jstring option \<Rightarrow> jstring list \<Rightarrow> jstring \<Rightarrow> jstring" where
  "choose_model m supported fallback =
     (if truthy_opt m \<and> string_of m \<in> set supported then string_of m else fallback)"

text \<open>\<^verbatim>\<open>prompt || "A beautiful scenery"\<close>\<close>

definition prompt_or_default :: "jstring \<Rightarrow> jstring" where
  "prompt_or_default p = or_else p (str ''A beautiful scenery'')"

subsection \<open>handleModelScope\<close>

definition maxAttempts :: nat where
  "maxAttempts = 60"

text \<open>The markdown of a finished task:
  \<^verbatim>\<open>(checkData.output_images || []).map(url => ...).join("\n\n") || "..."\<close>. A truthy value
  that is not an array has no \<^verbatim>\<open>map\<close>, and the call throws.\<close>

definition succeed_result :: "runtime \<Rightarrow> json \<Rightarrow> error + jstring" where
  "succeed_result rt checkData =
     (let imageUrls =
            (case get_prop checkData (str ''output_images'') of
               None \<Rightarrow> JArr []
             | Some v \<Rightarrow> if truthy v then v else JArr [])
      in case imageUrls of
           JArr us \<Rightarrow>
             Inr (or_else
                    (js_join blank_line
                       (map (\<lambda>u. str ''![Generated Image]('' @ template rt (Some u) @ str '')'') us))
                    failure_placeholder)
         | _ \<Rightarrow> Inl TypeError)"

text \<open>
  The polling loop \<^verbatim>\<open>for (let i = 0; i < maxAttempts; i++)\<close>, from the value \<open>i\<close> of
  the counter and the trace so far. Each round sleeps 5000 ms and then sends the request.
  A response that is not \<^verbatim>\<open>ok\<close> is warned about and the loop continues; reading
  \<^verbatim>\<open>task_status\<close> of \<^verbatim>\<open>null\<close> throws.
\<close>

function poll_task :: "runtime \<Rightarrow> http_request \<Rightarrow> nat \<Rightarrow> trace \<Rightarrow> (error + jstring) \<times> trace" where
  "poll_task rt checkRequest i tr =
     (if i < maxAttempts then
        (let slept = tr @ [Sleep 5000];
             r = fst (fetchWithTimeout rt checkRequest slept);
             tr2 = snd (fetchWithTimeout rt checkRequest slept)
         in case r of
              Rejected msg \<Rightarrow> (Inl (FetchRejected msg), tr2)
            | Resolved checkResponse \<Rightarrow>
                if \<not> resp_ok checkResponse
                  then poll_task rt checkRequest (i + 1) (tr2 @ [Warn (str ''ModelScope'')])
                else
                  (case resp_json checkResponse of
                     None \<Rightarrow> (Inl JsonRejected, tr2)
                   | Some checkData \<Rightarrow>
                       if checkData = JNull then (Inl TypeError, tr2)
                       else if get_prop checkData (str ''task_status'') = Some (JStr (str ''SUCCEED''))
                         then (succeed_result rt checkData, tr2)
                       else if get_prop checkData (str ''task_status'') = Some (JStr (str ''FAILED''))
                         then (Inl (ModelScopeTaskFailed checkData), tr2)
                       else poll_task rt checkRequest (i + 1) tr2))
      else (Inl ModelScopeTaskTimeout, tr))"
  by pat_completeness auto
termination
  by (relation "measure (\<lambda>(rt, checkRequest, i, tr). maxAttempts - i)") auto

declare poll_task.simps [simp del]

definition modelscope_submit :: "provider_config \<Rightarrow> jstring \<Rightarrow> chat_request \<Rightarrow> jstring \<Rightarrow> http_request" where
  "modelscope_submit cfg apiKey reqBody prompt_text =
     \<lparr>req_method = POST,
      req_url = apiUrl cfg @ str ''/images/generations'',
      req_headers =
        [(str ''Content-Type'', str ''application/json''),
         (str ''Authorization'', str ''Bearer '' @ apiKey),
         (str ''X-ModelScope-Async-Mode'', str ''true'')],
      req_body = JsonBody (JObj
        [(str ''model'', JStr (choose_model (model reqBody) (supportedModels cfg) (defaultModel cfg))),
         (str ''prompt'', JStr (prompt_or_default prompt_text)),
         (str ''size'', JStr (or_else (string_of (size_str reqBody)) (defaultSize cfg))),
         (str ''n'', JNum 1)])\<rparr>"

definition modelscope_check :: "runtime \<Rightarrow> provider_config \<Rightarrow> jstring \<Rightarrow> json option \<Rightarrow> http_request" where
  "modelscope_check rt cfg apiKey taskId =
     \<lparr>req_method = GET,
      req_url = apiUrl cfg @ str ''/tasks/'' @ template rt taskId,
      req_headers =
        [(str ''Authorization'', str ''Bearer '' @ apiKey),
         (str ''X-ModelScope-Task-Type'', str ''image_generation'')],
      req_body = NoBody\<rparr>"

definition handleModelScope ::
  "runtime \<Rightarrow> provider_config \<Rightarrow> jstring \<Rightarrow> chat_request \<Rightarrow> jstring \<Rightarrow> trace
     \<Rightarrow> (error + jstring) \<times> trace" where
  "handleModelScope rt cfg apiKey reqBody prompt_text tr =
     (let submitted = fetchWithTimeout rt (modelscope_submit cfg apiKey reqBody prompt_text) tr
      in case fst submitted of
           Rejected msg \<Rightarrow> (Inl (FetchRejected msg), snd submitted)
         | Resolved submitResponse \<Rightarrow>
             if \<not> resp_ok submitResponse
               then (Inl (ModelScopeSubmitError (resp_status submitResponse) (resp_text submitResponse)),
                     snd submitted)
             else
               (case resp_json submitResponse of
                  None \<Rightarrow> (Inl JsonRejected, snd submitted)
                | Some submitData \<Rightarrow>
                    if submitData = JNull then (Inl TypeError, snd submitted)
                    else poll_task rt
                           (modelscope_check rt cfg apiKey (get_prop submitData (str ''task_id'')))
                           0 (snd submitted)))"

subsection \<open>The polling loop in the specification's words\<close>



text \<open>The results of the network calls in a trace, in order.\<close>

fun fetched :: "trace \<Rightarrow> fetch_result list" where
  "fetched [] = []"
| "fetched (Fetch request r # tr) = r # fetched tr"
| "fetched (Sleep ms # tr) = fetched tr"
| "fetched (Warn m # tr) = fetched tr"
| "fetched (Routed p keyPrefix # tr) = fetched tr"

subsection \<open>Number(s) and the size of a Hugging Face image\<close>

definition truthy_num :: "jsnum \<Rightarrow> bool" where
  "truthy_num n = (case n of NaN \<Rightarrow> False | Finite r \<Rightarrow> r \<noteq> 0 | PosInfinity \<Rightarrow> True | NegInfinity \<Rightarrow> True)"

definition is_digit :: "nat \<Rightarrow> bool" where
  "is_digit c = (48 \<le> c \<and> c \<le> 57)"

text \<open>The code units that occur in the numeric string literals of ECMAScript: the digits,
  the signs and the dot, the exponent mark, the letters of \<^verbatim>\<open>Infinity\<close>, the hexadecimal
  digits and the radix marks \<^verbatim>\<open>x\<close>, \<^verbatim>\<open>o\<close>, \<^verbatim>\<open>b\<close> in both cases.\<close>

definition numeric_alphabet :: "nat \<Rightarrow> bool" where
  "numeric_alphabet c =
     (is_digit c \<or> c = 43 \<or> c = 45 \<or> c = 46 \<or> c = 101 \<or> c = 69
      \<or> c = 73 \<or> c = 110 \<or> c = 102 \<or> c = 105 \<or> c = 116 \<or> c = 121
      \<or> (97 \<le> c \<and> c \<le> 102) \<or> (65 \<le> c \<and> c \<le> 70)
      \<or> c = 120 \<or> c = 88 \<or> c = 111 \<or> c = 79 \<or> c = 98 \<or> c = 66)"

definition digits_value :: "jstring \<Rightarrow> nat" where
  "digits_value ds = foldl (\<lambda>acc d. 10 * acc + (d - 48)) 0 ds"

text \<open>
  \<^verbatim>\<open>Number(s)\<close> for a string: white space is trimmed; the empty string is 0; a string with
  a code unit outside the numeric alphabet is \<^verbatim>\<open>NaN\<close>; a run of at most 15 decimal digits,
  with or without a sign, is its value, which a double holds exactly. Every other string
  (a fraction, an exponent, another radix, \<^verbatim>\<open>Infinity\<close>, a longer run of digits, or a
  malformed literal) is left to the runtime.
\<close>

definition js_Number :: "runtime \<Rightarrow> jstring \<Rightarrow> jsnum" where
  "js_Number rt s =
     (let t = trim s
      in if t = [] then Finite 0
         else if \<not> list_all numeric_alphabet t then NaN
         else if list_all is_digit t \<and> length t \<le> 15 then Finite (of_nat (digits_value t))
         else if (hd t = 45 \<or> hd t = 43) \<and> tl t \<noteq> [] \<and> list_all is_digit (tl t) \<and> length (tl t) \<le> 15
           then Finite ((if hd t = 45 then - 1 else 1) * of_nat (digits_value (tl t)))
         else Number_other rt t)"

text \<open>\<^verbatim>\<open>xs[i]\<close>, \<^verbatim>\<open>undefined\<close> out of range.\<close>

definition nth_opt :: "'a list \<Rightarrow> nat \<Rightarrow> 'a option" where
  "nth_opt xs i = (if i < length xs then Some (xs ! i) else None)"

text \<open>\<^verbatim>\<open>v || 1024\<close> for a number that may be \<^verbatim>\<open>undefined\<close>.\<close>

definition or_1024 :: "jsnum option \<Rightarrow> jsnum" where
  "or_1024 v =
     (case v of
        None \<Rightarrow> Finite 1024
      | Some n \<Rightarrow> if truthy_num n then n else Finite 1024)"

text \<open>\<^verbatim>\<open>const [width, height] = size.split('x').map(Number)\<close>, and then the values the
  payload takes, \<^verbatim>\<open>width || 1024\<close> and \<^verbatim>\<open>height || 1024\<close>. Code unit 120 is the letter x.\<close>

definition size_parts :: "runtime \<Rightarrow> jstring \<Rightarrow> jsnum list" where
  "size_parts rt sz = map (js_Number rt) (split_on 120 sz)"

definition payload_width :: "runtime \<Rightarrow> jstring \<Rightarrow> jsnum" where
  "payload_width rt sz = or_1024 (nth_opt (size_parts rt sz) 0)"

definition payload_height :: "runtime \<Rightarrow> jstring \<Rightarrow> jsnum" where
  "payload_height rt sz = or_1024 (nth_opt (size_parts rt sz) 1)"

text \<open>\<^verbatim>\<open>JSON.stringify\<close> writes \<^verbatim>\<open>null\<close> for a number that is not finite.\<close>

definition json_of_num :: "jsnum \<Rightarrow> json" where
  "json_of_num n = (case n of Finite r \<Rightarrow> JNum r | _ \<Rightarrow> JNull)"

subsection \<open>handleHuggingFace\<close>

text \<open>\<^verbatim>\<open>{ data: [prompt || "A beautiful scenery", height || 1024, width || 1024, steps, seed, false] }\<close>\<close>

definition hf_request_body :: "runtime \<Rightarrow> jstring \<Rightarrow> jstring \<Rightarrow> json" where
  "hf_request_body rt prompt_text sz =
     JObj [(str ''data'',
            JArr [JStr (prompt_or_default prompt_text),
                  json_of_num (payload_height rt sz),
                  json_of_num (payload_width rt sz),
                  JNum 9,
                  JNum (of_nat (random_seed rt)),
                  JBool False])]"

definition hf_headers :: "jstring \<Rightarrow> (jstring \<times> jstring) list" where
  "hf_headers apiKey =
     (str ''Content-Type'', str ''application/json'')
     # (if truthy_str apiKey then [(str ''Authorization'', str ''Bearer '' @ apiKey)] else [])"

text \<open>
  The body of the \<^verbatim>\<open>try\<close> block for one URL of the pool: submit to the queue, fetch the
  result stream, parse it. \<open>Inr\<close> is the \<^verbatim>\<open>return\<close> inside the block, \<open>Inl\<close> what the block
  throws and the \<^verbatim>\<open>catch\<close> records. Destructuring \<^verbatim>\<open>null\<close> throws.
\<close>

definition try_url ::
  "runtime \<Rightarrow> (jstring \<times> jstring) list \<Rightarrow> json \<Rightarrow> jstring \<Rightarrow> trace \<Rightarrow> (error + jstring) \<times> trace" where
  "try_url rt headers requestBody base tr =
     (let queued = fetchWithTimeout rt
            \<lparr>req_method = POST, req_url = base @ str ''/gradio_api/call/generate_image'',
             req_headers = headers, req_body = JsonBody requestBody\<rparr> tr
      in case fst queued of
           Rejected msg \<Rightarrow> (Inl (FetchRejected msg), snd queued)
         | Resolved queueResponse \<Rightarrow>
             if \<not> resp_ok queueResponse
               then (Inl (HuggingFaceApiError (resp_status queueResponse) (resp_text queueResponse)),
                     snd queued)
             else
               (case resp_json queueResponse of
                  None \<Rightarrow> (Inl JsonRejected, snd queued)
                | Some queueData \<Rightarrow>
                    if queueData = JNull then (Inl TypeError, snd queued)
                    else
                      (let fetched_result = fetchWithTimeout rt
                             \<lparr>req_method = GET,
                              req_url = base @ str ''/gradio_api/call/generate_image/''
                                          @ template rt (get_prop queueData (str ''event_id'')),
                              req_headers = headers, req_body = NoBody\<rparr> (snd queued)
                       in case fst fetched_result of
                            Rejected msg \<Rightarrow> (Inl (FetchRejected msg), snd fetched_result)
                          | Resolved resultResponse \<Rightarrow>
                              if \<not> resp_ok resultResponse
                                then (Inl (HuggingFaceResultApiError (resp_status resultResponse)
                                             (resp_text resultResponse)),
                                      snd fetched_result)
                              else
                                (case extractImageUrlFromSSE (JSON_parse rt) (resp_text resultResponse) of
                                   Inl e \<Rightarrow> (Inl HuggingFaceSseError, snd fetched_result)
                                 | Inr None \<Rightarrow> (Inl HuggingFaceNoImageUrl, snd fetched_result)
                                 | Inr (Some imageUrl) \<Rightarrow>
                                     (Inr (str ''![Generated Image]('' @ template rt (Some imageUrl)
                                            @ str '')''),
                                      snd fetched_result)))))"

text \<open>The loop over the pool, with \<^verbatim>\<open>lastError\<close>; after the loop,
  \<^verbatim>\<open>throw lastError || new Error(...)\<close>.\<close>

fun failover ::
  "runtime \<Rightarrow> (jstring \<times> jstring) list \<Rightarrow> json \<Rightarrow> jstring list \<Rightarrow> error option \<Rightarrow> trace
     \<Rightarrow> (error + jstring) \<times> trace" where
  "failover rt headers requestBody [] lastError tr =
     (Inl (case lastError of Some e \<Rightarrow> e | None \<Rightarrow> HuggingFaceAllFailed), tr)"
| "failover rt headers requestBody (base # rest) lastError tr =
     (case fst (try_url rt headers requestBody base tr) of
        Inr result \<Rightarrow> (Inr result, snd (try_url rt headers requestBody base tr))
      | Inl err \<Rightarrow>
          failover rt headers requestBody rest (Some err)
            (snd (try_url rt headers requestBody base tr)))"

text \<open>The warning about input images, which this channel ignores, comes before the pool is
  looked at.\<close>

definition hf_warned :: "jstring list \<Rightarrow> trace \<Rightarrow> trace" where
  "hf_warned imgs tr = (if length imgs > 0 then tr @ [Warn (str ''HuggingFace'')] else tr)"

definition handleHuggingFace ::
  "runtime \<Rightarrow> hf_config \<Rightarrow> jstring \<Rightarrow> chat_request \<Rightarrow> jstring \<Rightarrow> jstring list \<Rightarrow> trace
     \<Rightarrow> (error + jstring) \<times> trace" where
  "handleHuggingFace rt cfg apiKey reqBody prompt_text imgs tr =
     (let sz = or_else (string_of (size_str reqBody)) (defaultSize cfg);
          requestBody = hf_request_body rt prompt_text sz
      in if apiUrls cfg = [] then (Inl HuggingFaceConfigError, hf_warned imgs tr)
         else failover rt (hf_headers apiKey) requestBody (apiUrls cfg) None (hf_warned imgs tr))"

subsection \<open>The failover in the specification's words\<close>

text \<open>Every URL of the list fails, each tried from the trace the one before it left.\<close>

fun all_fail ::
  "runtime \<Rightarrow> (jstring \<times> jstring) list \<Rightarrow> json \<Rightarrow> jstring list \<Rightarrow> trace \<Rightarrow> bool" where
  "all_fail rt headers requestBody [] tr = True"
| "all_fail rt headers requestBody (base # rest) tr =
     (isl (fst (try_url rt headers requestBody base tr))
      \<and> all_fail rt headers requestBody rest (snd (try_url rt headers requestBody base tr)))"

text \<open>The trace after the URLs of the list have been tried in order.\<close>

fun trace_after ::
  "runtime \<Rightarrow> (jstring \<times> jstring) list \<Rightarrow> json \<Rightarrow> jstring list \<Rightarrow> trace \<Rightarrow> trace" where
  "trace_after rt headers requestBody [] tr = tr"
| "trace_after rt headers requestBody (base # rest) tr =
     trace_after rt headers requestBody rest (snd (try_url rt headers requestBody base tr))"

subsection \<open>urlToBase64\<close>

definition first_piece :: "jstring list \<Rightarrow> jstring" where
  "first_piece pieces = (case pieces of [] \<Rightarrow> [] | p # ps \<Rightarrow> p)"

text \<open>The value is the pair \<^verbatim>\<open>{ base64, mimeType }\<close>. Code unit 59 is the semicolon.\<close>

definition urlToBase64 :: "runtime \<Rightarrow> jstring \<Rightarrow> trace \<Rightarrow> (error + jstring \<times> jstring) \<times> trace" where
  "urlToBase64 rt address tr =
     (let got = fetchWithTimeout rt
            \<lparr>req_method = GET, req_url = address, req_headers = [], req_body = NoBody\<rparr> tr
      in case fst got of
           Rejected msg \<Rightarrow> (Inl (FetchRejected msg), snd got)
         | Resolved response \<Rightarrow>
             if \<not> resp_ok response then (Inl (DownloadFailed (resp_status response)), snd got)
             else
               (Inr (btoa rt (resp_bytes response),
                     trim (first_piece (split_on 59
                        (or_else (string_of (resp_content_type response)) (str ''image/png''))))),
                snd got))"

subsection \<open>Reading the images of a response\<close>

text \<open>The callback of \<^verbatim>\<open>map\<close> as it runs: the annotation
  \<^verbatim>\<open>{ url?: string; b64_json?: string }\<close> checks nothing, so each field is tested for
  truthiness and written by the template literal, whatever value the response holds there.\<close>

definition truthy_prop :: "json \<Rightarrow> jstring \<Rightarrow> bool" where
  "truthy_prop j name = (case get_prop j name of None \<Rightarrow> False | Some v \<Rightarrow> truthy v)"

definition format_entry :: "runtime \<Rightarrow> json \<Rightarrow> jstring" where
  "format_entry rt img =
     (if truthy_prop img (str ''b64_json'')
        then str ''![Generated Image](data:image/png;base64,''
               @ template rt (get_prop img (str ''b64_json'')) @ str '')''
      else if truthy_prop img (str ''url'')
        then str ''![Generated Image]('' @ template rt (get_prop img (str ''url'')) @ str '')''
      else [])"

text \<open>\<^verbatim>\<open>imageData.map(...).filter(Boolean).join("\n\n") || "..."\<close>\<close>

definition format_entries :: "runtime \<Rightarrow> json list \<Rightarrow> jstring" where
  "format_entries rt imageData =
     or_else (js_join blank_line (filter truthy_str (map (format_entry rt) imageData)))
       failure_placeholder"

text \<open>An entry of the declared type as the value \<^verbatim>\<open>response.json()\<close> gives for it: an
  object with the fields that are present, as strings.\<close>

definition json_of_image :: "api_image \<Rightarrow> json" where
  "json_of_image img =
     JObj ((case url img of None \<Rightarrow> [] | Some u \<Rightarrow> [(str ''url'', JStr u)])
           @ (case b64_json img of None \<Rightarrow> [] | Some b \<Rightarrow> [(str ''b64_json'', JStr b)]))"

text \<open>\<^verbatim>\<open>data.data || []\<close>\<close>

definition data_or_empty :: "json \<Rightarrow> json" where
  "data_or_empty j =
     (case get_prop j (str ''data'') of
        None \<Rightarrow> JArr []
      | Some v \<Rightarrow> if truthy v then v else JArr [])"

text \<open>\<^verbatim>\<open>imageData.map(img => ...)\<close> reads both fields of every entry: an entry that is
  \<^verbatim>\<open>null\<close> throws, and so does a value without \<^verbatim>\<open>map\<close>.\<close>

definition mapped_entries :: "runtime \<Rightarrow> json \<Rightarrow> error + jstring" where
  "mapped_entries rt imageData =
     (case imageData of
        JArr xs \<Rightarrow> if JNull \<in> set xs then Inl TypeError else Inr (format_entries rt xs)
      | _ \<Rightarrow> Inl TypeError)"

subsection \<open>handleVolcEngine\<close>

text \<open>
  \<^verbatim>\<open>Promise.all(images.map(async (img) => ...))\<close>: \<^verbatim>\<open>map\<close> runs every callback up to
  its first \<^verbatim>\<open>await\<close>, so all the downloads are sent, in the order of the images, before any
  of them is answered and before any warning. \<open>downloads\<close> is that phase: for each image the
  reference that takes its place, and whether its download failed. A \<open>Fetch\<close> event holds a
  call together with its answer, at the place of the call.
\<close>

fun downloads :: "runtime \<Rightarrow> jstring list \<Rightarrow> trace \<Rightarrow> (jstring \<times> bool) list \<times> trace" where
  "downloads rt [] tr = ([], tr)"
| "downloads rt (img # rest) tr =
     (if startsWith img (str ''data:image/'')
        then ((img, False) # fst (downloads rt rest tr), snd (downloads rt rest tr))
      else if startsWith img (str ''http'') then
        (case fst (urlToBase64 rt img tr) of
           Inr converted \<Rightarrow>
             ((str ''data:'' @ snd converted @ str '';base64,'' @ fst converted, False)
                # fst (downloads rt rest (snd (urlToBase64 rt img tr))),
              snd (downloads rt rest (snd (urlToBase64 rt img tr))))
         | Inl e \<Rightarrow>
             ((img, True) # fst (downloads rt rest (snd (urlToBase64 rt img tr))),
              snd (downloads rt rest (snd (urlToBase64 rt img tr)))))
      else ((img, False) # fst (downloads rt rest tr), snd (downloads rt rest tr)))"

text \<open>A failed download is warned about once it has failed, and the reference is kept as it
  is. The failures come in the order in which the network answers; the model takes the order
  of the images.\<close>

definition process_images :: "runtime \<Rightarrow> jstring list \<Rightarrow> trace \<Rightarrow> jstring list \<times> trace" where
  "process_images rt imgs tr =
     (map fst (fst (downloads rt imgs tr)),
      snd (downloads rt imgs tr)
        @ map (\<lambda>failed. Warn (str ''VolcEngine'')) (filter snd (fst (downloads rt imgs tr))))"

definition volcengine_request ::
  "provider_config \<Rightarrow> jstring \<Rightarrow> chat_request \<Rightarrow> jstring \<Rightarrow> jstring list \<Rightarrow> http_request" where
  "volcengine_request cfg apiKey reqBody prompt_text processedImages =
     \<lparr>req_method = POST,
      req_url = apiUrl cfg,
      req_headers =
        [(str ''Content-Type'', str ''application/json''),
         (str ''Authorization'', str ''Bearer '' @ apiKey),
         (str ''Connection'', str ''close'')],
      req_body = JsonBody (JObj
        ([(str ''model'', JStr (choose_model (model reqBody) (supportedModels cfg) (defaultModel cfg))),
          (str ''prompt'', JStr (prompt_or_default prompt_text)),
          (str ''response_format'', JStr (or_else (string_of (response_format reqBody)) (str ''b64_json''))),
          (str ''size'', JStr (or_else (string_of (size_str reqBody))
              (if length processedImages > 0 then defaultEditSize cfg else defaultSize cfg))),
          (str ''watermark'', JBool False)]
         @ (if length processedImages > 0 then
              (str ''image'',
                 if length processedImages = 1 then JStr (first_piece processedImages)
                 else JArr (map JStr processedImages))
              # (if length processedImages > 1
                   then [(str ''sequential_image_generation'', JStr (str ''disabled''))] else [])
            else [])))\<rparr>"

definition handleVolcEngine ::
  "runtime \<Rightarrow> provider_config \<Rightarrow> jstring \<Rightarrow> chat_request \<Rightarrow> jstring \<Rightarrow> jstring list \<Rightarrow> trace
     \<Rightarrow> (error + jstring) \<times> trace" where
  "handleVolcEngine rt cfg apiKey reqBody prompt_text imgs tr =
     (let processed = process_images rt imgs tr;
          answered = fetchWithTimeout rt
            (volcengine_request cfg apiKey reqBody prompt_text (fst processed)) (snd processed)
      in case fst answered of
           Rejected msg \<Rightarrow> (Inl (FetchRejected msg), snd answered)
         | Resolved response \<Rightarrow>
             if \<not> resp_ok response
               then (Inl (VolcEngineApiError (resp_status response) (resp_text response)), snd answered)
             else
               (case resp_json response of
                  None \<Rightarrow> (Inl JsonRejected, snd answered)
                | Some data \<Rightarrow>
                    if data = JNull then (Inl TypeError, snd answered)
                    else
                      (mapped_entries rt (data_or_empty data), snd answered)))"

subsection \<open>handleGitee\<close>

text \<open>\<^verbatim>\<open>if (!imageData || imageData.length === 0) throw ...\<close> and then the map: the empty
  array, and an object whose \<^verbatim>\<open>length\<close> is 0, are the empty-data failure.\<close>

definition gitee_images :: "runtime \<Rightarrow> json \<Rightarrow> error + jstring" where
  "gitee_images rt imageData =
     (case imageData of
        JArr [] \<Rightarrow> Inl GiteeEmptyData
      | JObj kvs \<Rightarrow> if map_of kvs (str ''length'') = Some (JNum 0) then Inl GiteeEmptyData else Inl TypeError
      | _ \<Rightarrow> mapped_entries rt imageData)"

text \<open>What both modes do with a response, given the failure for a status that is not a
  success.\<close>

definition gitee_answer ::
  "runtime \<Rightarrow> (nat \<Rightarrow> jstring \<Rightarrow> error) \<Rightarrow> fetch_result \<times> trace
     \<Rightarrow> (error + jstring) \<times> trace" where
  "gitee_answer rt api_error answered =
     (case fst answered of
        Rejected msg \<Rightarrow> (Inl (FetchRejected msg), snd answered)
      | Resolved response \<Rightarrow>
          if \<not> resp_ok response
            then (Inl (api_error (resp_status response) (resp_text response)), snd answered)
          else
            (case resp_json response of
               None \<Rightarrow> (Inl JsonRejected, snd answered)
             | Some data \<Rightarrow>
                 if data = JNull then (Inl TypeError, snd answered)
                 else
                   (gitee_images rt (data_or_empty data), snd answered)))"

text \<open>\<^verbatim>\<open>String(v)\<close> for a string that may be \<^verbatim>\<open>undefined\<close>.\<close>

definition string_or_undefined :: "jstring option \<Rightarrow> jstring" where
  "string_or_undefined v = (case v of None \<Rightarrow> str ''undefined'' | Some s \<Rightarrow> s)"

text \<open>The first input image as base64 text and MIME type: taken apart when it is a data URI
  (code units 44, 59 and 58 are the comma, the semicolon and the colon), downloaded otherwise.
  A data URI without a comma gives \<^verbatim>\<open>undefined\<close>, which \<^verbatim>\<open>atob\<close> reads as the
  string \<^verbatim>\<open>"undefined"\<close>.\<close>

definition gitee_image_input ::
  "runtime \<Rightarrow> jstring \<Rightarrow> trace \<Rightarrow> (error + jstring \<times> jstring) \<times> trace" where
  "gitee_image_input rt imageInput tr =
     (if startsWith imageInput (str ''data:image/'')
        then (Inr (string_or_undefined (nth_opt (split_on 44 imageInput) 1),
                   string_of (nth_opt (split_on 58 (first_piece (split_on 59 imageInput))) 1)),
              tr)
      else urlToBase64 rt imageInput tr)"

definition gitee_edit_request ::
  "gitee_config \<Rightarrow> jstring \<Rightarrow> chat_request \<Rightarrow> jstring \<Rightarrow> nat list \<Rightarrow> jstring \<Rightarrow> http_request" where
  "gitee_edit_request cfg apiKey reqBody prompt_text binaryData mimeType =
     \<lparr>req_method = POST,
      req_url = editApiUrl cfg,
      req_headers = [(str ''Authorization'', str ''Bearer '' @ apiKey)],
      req_body = FormBody
        [(str ''model'', FormText (choose_model (model reqBody) (editModels cfg)
            (string_or_undefined (nth_opt (editModels cfg) 0)))),
         (str ''prompt'', FormText (or_else prompt_text [])),
         (str ''size'', FormText (defaultEditSize cfg)),
         (str ''n'', FormText (str ''1'')),
         (str ''response_format'', FormText (str ''b64_json'')),
         (str ''image'', FormBlob binaryData mimeType (str ''image.png''))]\<rparr>"


definition gitee_generate_request ::
  "gitee_config \<Rightarrow> jstring \<Rightarrow> chat_request \<Rightarrow> jstring \<Rightarrow> http_request" where
  "gitee_generate_request cfg apiKey reqBody prompt_text =
     \<lparr>req_method = POST,
      req_url = apiUrl cfg,
      req_headers =
        [(str ''Content-Type'', str ''application/json''),
         (str ''Authorization'', str ''Bearer '' @ apiKey)],
      req_body = JsonBody (JObj
        [(str ''model'', JStr (choose_model (model reqBody) (supportedModels cfg) (defaultModel cfg))),
         (str ''prompt'', JStr (prompt_or_default prompt_text)),
         (str ''size'', JStr (or_else (string_of (size_str reqBody)) (defaultSize cfg))),
         (str ''n'', JNum 1),
         (str ''response_format'', JStr (str ''b64_json''))])\<rparr>"

text \<open>Edit mode when there are input images, of which only the first is used; generate mode
  otherwise.\<close>

definition handleGitee ::
  "runtime \<Rightarrow> gitee_config \<Rightarrow> jstring \<Rightarrow> chat_request \<Rightarrow> jstring \<Rightarrow> jstring list \<Rightarrow> trace
     \<Rightarrow> (error + jstring) \<times> trace" where
  "handleGitee rt cfg apiKey reqBody prompt_text imgs tr =
     (case imgs of
        imageInput # others \<Rightarrow>
          (case fst (gitee_image_input rt imageInput tr) of
             Inl e \<Rightarrow> (Inl e, snd (gitee_image_input rt imageInput tr))
           | Inr input \<Rightarrow>
               (case atob rt (fst input) of
                  None \<Rightarrow> (Inl InvalidBase64, snd (gitee_image_input rt imageInput tr))
                | Some binaryData \<Rightarrow>
                    gitee_answer rt GiteeEditApiError
                      (fetchWithTimeout rt
                         (gitee_edit_request cfg apiKey reqBody prompt_text binaryData (snd input))
                         (snd (gitee_image_input rt imageInput tr)))))
      | [] \<Rightarrow>
          gitee_answer rt GiteeApiError
            (fetchWithTimeout rt (gitee_generate_request cfg apiKey reqBody prompt_text) tr))"

subsection \<open>handleChatCompletions\<close>

text \<open>What the handler reads of the \<^verbatim>\<open>Request\<close>: the path of its URL, the
  \<^verbatim>\<open>Authorization\<close> header, and the body as \<^verbatim>\<open>req.json()\<close> gives it, \<open>None\<close> where
  that rejects.\<close>

record request =
  pathname :: jstring
  authorization :: "jstring option"
  body_json :: "chat_request option"

text \<open>The chunks of a streamed response: the content chunk and the end chunk, each with the
  response id, the \<^verbatim>\<open>created\<close> time and the model name, and the marker \<^verbatim>\<open>[DONE]\<close>.\<close>

datatype chunk =
    ContentChunk jstring nat jstring jstring
  | EndChunk jstring nat jstring
  | DoneMarker

datatype response_body =
    HealthOk
  | NotFound
  | AuthorizationMissing
  | InvalidKeyFormat
  | ChatCompletion jstring nat jstring jstring
  | EventStream "chunk list"
  | ErrorEnvelope error provider

record response =
  status_code :: nat
  content_type :: jstring
  payload :: response_body

text \<open>\<^verbatim>\<open>s.replace(pattern, replacement)\<close> for a string pattern: the first occurrence.\<close>

fun replace_first :: "jstring \<Rightarrow> jstring \<Rightarrow> jstring \<Rightarrow> jstring" where
  "replace_first pat rep [] = (if pat = [] then rep else [])"
| "replace_first pat rep (c # cs) =
     (if startsWith (c # cs) pat then rep @ drop (length pat) (c # cs)
      else c # replace_first pat rep cs)"

text \<open>The \<^verbatim>\<open>switch\<close> over the provider; \<^verbatim>\<open>imageContent\<close> starts as the empty string.\<close>

definition run_adapter ::
  "runtime \<Rightarrow> provider \<Rightarrow> jstring \<Rightarrow> chat_request \<Rightarrow> jstring \<Rightarrow> jstring list \<Rightarrow> trace
     \<Rightarrow> (error + jstring) \<times> trace" where
  "run_adapter rt p apiKey requestBody prompt_text imgs tr =
     (case p of
        VolcEngine \<Rightarrow> handleVolcEngine rt VolcEngineConfig apiKey requestBody prompt_text imgs tr
      | Gitee \<Rightarrow> handleGitee rt GiteeConfig apiKey requestBody prompt_text imgs tr
      | ModelScope \<Rightarrow> handleModelScope rt ModelScopeConfig apiKey requestBody prompt_text tr
      | HuggingFace \<Rightarrow> handleHuggingFace rt HuggingFaceConfig apiKey requestBody prompt_text imgs tr
      | Unknown \<Rightarrow> (Inr [], tr))"

text \<open>The two envelopes of a generated content.\<close>

definition completion_response :: "runtime \<Rightarrow> chat_request \<Rightarrow> jstring \<Rightarrow> response" where
  "completion_response rt requestBody imageContent =
     \<lparr>status_code = 200, content_type = str ''application/json'',
      payload = ChatCompletion (str ''chatcmpl-'' @ randomUUID rt) (clock_seconds rt 0)
                  (or_else (string_of (model requestBody)) (str ''unknown-model'')) imageContent\<rparr>"

definition stream_response :: "runtime \<Rightarrow> chat_request \<Rightarrow> jstring \<Rightarrow> response" where
  "stream_response rt requestBody imageContent =
     \<lparr>status_code = 200, content_type = str ''text/event-stream'',
      payload = EventStream
        [ContentChunk (str ''chatcmpl-'' @ randomUUID rt) (clock_seconds rt 0)
           (or_else (string_of (model requestBody)) (str ''unknown-model'')) imageContent,
         EndChunk (str ''chatcmpl-'' @ randomUUID rt) (clock_seconds rt 1)
           (or_else (string_of (model requestBody)) (str ''unknown-model'')),
         DoneMarker]\<rparr>"

text \<open>
  \<^verbatim>\<open>handleChatCompletions\<close>. The trace takes the warnings, the call of
  \<^verbatim>\<open>logProviderRouting\<close> and what the adapter does. Everything from \<^verbatim>\<open>req.json()\<close> on
  is inside the \<^verbatim>\<open>try\<close>, whose \<^verbatim>\<open>catch\<close> answers 500 with the error and the provider.
\<close>

definition handleChatCompletions :: "runtime \<Rightarrow> request \<Rightarrow> trace \<Rightarrow> response \<times> trace" where
  "handleChatCompletions rt req tr =
     (if pathname req = str ''/'' \<or> pathname req = str ''/health''
        then (\<lparr>status_code = 200, content_type = str ''application/json'', payload = HealthOk\<rparr>, tr)
      else if pathname req \<noteq> str ''/v1/chat/completions''
        then (\<lparr>status_code = 404, content_type = str ''application/json'', payload = NotFound\<rparr>,
              tr @ [Warn (str ''HTTP'')])
      else
        (let apiKey = map_option (\<lambda>h. trim (replace_first (str ''Bearer '') [] h)) (authorization req)
         in if \<not> truthy_opt apiKey
              then (\<lparr>status_code = 401, content_type = str ''application/json'',
                     payload = AuthorizationMissing\<rparr>,
                    tr @ [Warn (str ''HTTP'')])
            else
              (let routed = detectProvider (string_of apiKey);
                   tr1 = tr @ map (\<lambda>(p, keyPrefix). Routed p keyPrefix) (snd routed)
               in if fst routed = Unknown
                    then (\<lparr>status_code = 401, content_type = str ''application/json'',
                           payload = InvalidKeyFormat\<rparr>,
                          tr1 @ [Warn (str ''HTTP'')])
                  else
                    (case body_json req of
                       None \<Rightarrow>
                         (\<lparr>status_code = 500, content_type = str ''application/json'',
                           payload = ErrorEnvelope JsonRejected (fst routed)\<rparr>, tr1)
                     | Some requestBody \<Rightarrow>
                         (let isStream = (stream requestBody = Some True);
                              extracted = extractPromptAndImages
                                (case messages requestBody of None \<Rightarrow> [] | Some ms \<Rightarrow> ms);
                              generated = run_adapter rt (fst routed) (string_of apiKey) requestBody
                                (prompt extracted) (images extracted) tr1
                          in case fst generated of
                               Inl e \<Rightarrow>
                                 (\<lparr>status_code = 500, content_type = str ''application/json'',
                                   payload = ErrorEnvelope e (fst routed)\<rparr>, snd generated)
                             | Inr imageContent \<Rightarrow>
                                 (if isStream then stream_response rt requestBody imageContent
                                  else completion_response rt requestBody imageContent,
                                  snd generated))))))"

subsection \<open>The stream flag in the specification's words\<close>

text \<open>The streamed envelope of a response: a chat completion becomes the event stream of its
  content chunk, the end chunk and the terminal marker; every other response stays as it is.\<close>

definition as_event_stream :: "runtime \<Rightarrow> response \<Rightarrow> response" where
  "as_event_stream rt resp =
     (case payload resp of
        ChatCompletion rid created served imageContent \<Rightarrow>
          \<lparr>status_code = 200, content_type = str ''text/event-stream'',
           payload = EventStream
             [ContentChunk rid created served imageContent,
              EndChunk rid (clock_seconds rt 1) served,
              DoneMarker]\<rparr>
      | _ \<Rightarrow> resp)"

subsection \<open>The image merge in the specification's words\<close>



text \<open>The entries of \<open>hist\<close> that equal no entry of \<open>seen\<close> and no earlier entry of
  \<open>hist\<close>, in order: each new reference once, at its first occurrence.\<close>

fun keep_first :: "jstring list \<Rightarrow> jstring list \<Rightarrow> jstring list" where
  "keep_first seen [] = []"
| "keep_first seen (h # hist) =
     (if h \<in> set seen then keep_first seen hist else h # keep_first (h # seen) hist)"

text \<open>The images of the current turn: those of the last user message, none without one.\<close>

definition current_turn :: "message list \<Rightarrow> jstring list" where
  "current_turn ms =
     (case last_user_below ms (length ms) of
        None \<Rightarrow> []
      | Some L \<Rightarrow> user_images (content (ms ! L)))"

subsection \<open>Example transcripts\<close>

definition history_text :: jstring where
  "history_text = str ''![x](http://b) ![y](http://c)''"

definition transcript_abc :: "message list" where
  "transcript_abc =
     [\<lparr>role = str ''assistant'', content = Text history_text\<rparr>,
      \<lparr>role = str ''user'',
       content = Items [TextItem (str ''blend''), ImageUrlItem (Some (str ''http://a''))]\<rparr>]"



definition transcript_cur_dup :: "message list" where
  "transcript_cur_dup =
     [\<lparr>role = str ''user'',
       content = Items [ImageUrlItem (Some (str ''http://a'')), ImageUrlItem (Some (str ''http://a''))]\<rparr>]"



text \<open>An example stream of four lines. The example parser knows the two payloads
  \<^verbatim>\<open>[{"url":"https://early"}]\<close> and \<^verbatim>\<open>[{"url":"https://img"}]\<close>; code unit 34 is the
  double quote.\<close>

definition payload_text :: "jstring \<Rightarrow> jstring" where
  "payload_text u = str ''[{'' @ [34] @ str ''url'' @ [34] @ str '':'' @ [34] @ u @ [34] @ str ''}]''"

definition example_parse :: "jstring \<Rightarrow> json option" where
  "example_parse t =
     (if t = payload_text (str ''https://early'')
        then Some (JArr [JObj [(str ''url'', JStr (str ''https://early''))]])
      else if t = payload_text (str ''https://img'')
        then Some (JArr [JObj [(str ''url'', JStr (str ''https://img''))]])
      else None)"

definition example_stream :: jstring where
  "example_stream =
     str ''event: generating'' @ [10]
     @ str ''data: '' @ payload_text (str ''https://early'') @ [10]
     @ str ''event: complete'' @ [10]
     @ str ''data: '' @ payload_text (str ''https://img'')"


text \<open>A backend that takes every job as \<^verbatim>\<open>task-1\<close>, answers \<^verbatim>\<open>PENDING\<close> to the first
  three polls and \<^verbatim>\<open>SUCCEED\<close> with one image to every later one; and a backend that takes
  the job and answers \<^verbatim>\<open>PENDING\<close> for ever.\<close>

definition accepted_reply :: fetch_result where
  "accepted_reply = Resolved
     \<lparr>resp_ok = True, resp_status = 200, resp_text = [],
      resp_json = Some (JObj [(str ''task_id'', JStr (str ''task-1''))]),
      resp_bytes = [], resp_content_type = None\<rparr>"






text \<open>A JSON value that is a positive number, as the claim words the width and the height.\<close>

definition positive_number :: "json \<Rightarrow> bool" where
  "positive_number j = (case j of JNum r \<Rightarrow> 0 < r | _ \<Rightarrow> False)"

text \<open>A runtime for the examples: its network rejects every call, and it reads no number
  outside the decimal integers.\<close>

definition offline :: runtime where
  "offline =
     \<lparr>network = (\<lambda>tr request. Rejected []),
      toString = (\<lambda>j. []),
      JSON_parse = (\<lambda>s. None),
      Number_other = (\<lambda>s. NaN),
      btoa = (\<lambda>bytes. []),
      atob = (\<lambda>s. None),
      random_seed = 0,
      randomUUID = [],
      clock_seconds = (\<lambda>n. 0)\<rparr>"

text \<open>A pool of four URLs and a backend on which the first two answer 500 and 501, the
  third takes the job and streams the example event stream, and the fourth is never reached.\<close>

definition four_urls :: hf_config where
  "four_urls =
     \<lparr>defaultModel = str ''z-image-turbo'', defaultSize = str ''2048x2048'',
      defaultEditSize = str ''2048x2048'', supportedModels = [str ''z-image-turbo''],
      apiUrls = [str ''https://a'', str ''https://b'', str ''https://c'', str ''https://d'']\<rparr>"

definition third_answers :: network where
  "third_answers tr request =
     (if startsWith (req_url request) (str ''https://c'') then
        (if req_method request = POST
           then Resolved \<lparr>resp_ok = True, resp_status = 200, resp_text = [],
                  resp_json = Some (JObj [(str ''event_id'', JStr (str ''e1''))]),
                  resp_bytes = [], resp_content_type = None\<rparr>
         else Resolved \<lparr>resp_ok = True, resp_status = 200, resp_text = example_stream,
                  resp_json = None, resp_bytes = [], resp_content_type = None\<rparr>)
      else Resolved \<lparr>resp_ok = False, resp_status = 500 + length (fetched tr), resp_text = [],
             resp_json = None, resp_bytes = [], resp_content_type = None\<rparr>)"

definition flaky :: runtime where
  "flaky =
     \<lparr>network = third_answers,
      toString = (\<lambda>j. []),
      JSON_parse = example_parse,
      Number_other = (\<lambda>s. NaN),
      btoa = (\<lambda>bytes. []),
      atob = (\<lambda>s. None),
      random_seed = 0,
      randomUUID = [],
      clock_seconds = (\<lambda>n. 0)\<rparr>"

definition no_fields :: chat_request where
  "no_fields = \<lparr>model = None, messages = None, stream = None, size_str = None,
                 response_format = None\<rparr>"

text \<open>A chat request of one user message to the Hugging Face channel, with the stream flag
  left open.\<close>

definition fox_body :: "bool option \<Rightarrow> chat_request" where
  "fox_body s =
     \<lparr>model = None,
      messages = Some [\<lparr>role = str ''user'', content = Text (str ''a red fox'')\<rparr>],
      stream = s, size_str = None, response_format = None\<rparr>"

definition fox_request :: "bool option \<Rightarrow> request" where
  "fox_request s =
     \<lparr>pathname = str ''/v1/chat/completions'',
      authorization = Some (str ''Bearer hf_key''),
      body_json = Some (fox_body s)\<rparr>"

definition fox_markdown :: jstring where
  "fox_markdown = str ''![Generated Image]('' @ str ''https://img'' @ str '')''"

subsection \<open>The submitted payload in the specification's words\<close>

text \<open>The bodies of the POST requests of a trace, in order.\<close>

fun posted :: "trace \<Rightarrow> body list" where
  "posted [] = []"
| "posted (Fetch request r # tr) =
     (if req_method request = POST then req_body request # posted tr else posted tr)"
| "posted (Sleep ms # tr) = posted tr"
| "posted (Warn m # tr) = posted tr"
| "posted (Routed p keyPrefix # tr) = posted tr"

text \<open>The entry at index \<open>i\<close> of the \<^verbatim>\<open>data\<close> array of a JSON body; index 1 is the height
  and index 2 the width.\<close>

definition payload_slot :: "body \<Rightarrow> nat \<Rightarrow> json option" where
  "payload_slot b i =
     (case b of
        JsonBody (JObj kvs) \<Rightarrow>
          (case map_of kvs (str ''data'') of Some (JArr xs) \<Rightarrow> nth_opt xs i | _ \<Rightarrow> None)
      | _ \<Rightarrow> None)"

text \<open>What the payload holds for a part of the size that \<^verbatim>\<open>Number\<close> turns into \<open>n\<close>:
  1024 for \<^verbatim>\<open>NaN\<close> and for zero, \<^verbatim>\<open>null\<close> for an infinity, and the number itself
  otherwise.\<close>

definition submitted_dimension :: "jsnum \<Rightarrow> json" where
  "submitted_dimension n =
     (case n of
        NaN \<Rightarrow> JNum 1024
      | Finite r \<Rightarrow> if r = 0 then JNum 1024 else JNum r
      | PosInfinity \<Rightarrow> JNull
      | NegInfinity \<Rightarrow> JNull)"

subsection \<open>Example sizes\<close>

text \<open>A pool of one URL, and the request that names a size and nothing else.\<close>

definition one_url :: hf_config where
  "one_url = four_urls\<lparr>apiUrls := [str ''https://a'']\<rparr>"

definition sized :: "string \<Rightarrow> chat_request" where
  "sized s = no_fields\<lparr>size_str := Some (str s)\<rparr>"

text \<open>A runtime that reads \<^verbatim>\<open>Infinity\<close> as the number it names.\<close>

definition reads_infinity :: runtime where
  "reads_infinity =
     flaky\<lparr>Number_other := (\<lambda>s. if s = str ''Infinity'' then PosInfinity else NaN)\<rparr>"

section \<open>Theorems\<close>

subsection \<open>Strings and patterns\<close>

lemma str_hf: "str ''hf_'' = [104, 102, 95]"
  by (simp add: str_def)

lemma str_ms: "str ''ms-'' = [109, 115, 45]"
  by (simp add: str_def)

lemma list_ex_upt: "list_ex P [lo..<Suc hi] = (\<exists>d. lo \<le> d \<and> d \<le> hi \<and> P d)"
  by (auto simp: list_ex_iff)

lemma canon_digit: "(\<exists>d. 48 \<le> d \<and> d \<le> 57 \<and> canonicalize d = canonicalize c) = (48 \<le> c \<and> c \<le> 57)"
  unfolding canonicalize_def by presburger

lemma canon_af: "(\<exists>d. 97 \<le> d \<and> d \<le> 102 \<and> canonicalize d = canonicalize c)
   = ((97 \<le> c \<and> c \<le> 102) \<or> (65 \<le> c \<and> c \<le> 70))"
  unfolding canonicalize_def by presburger

lemma in_class_hex: "in_class True hex_class = is_hex"
  apply (rule ext)
  unfolding in_class_def hex_class_def is_hex_def
  by (simp only: list_ex_Cons_iff list_ex_Nil_iff prod.case if_True list_ex_upt canon_digit canon_af) blast

lemma in_class_hyphen: "in_class True [(45, 45)] = (\<lambda>c. c = 45)"
  apply (rule ext)
  unfolding in_class_def 
  apply (simp only: list_ex_Cons_iff list_ex_Nil_iff prod.case if_True list_ex_upt)
  unfolding canonicalize_def by presburger

lemma rx_fixed: "rx_test ic ((cl, n, n) # its) s =
   (n \<le> length s \<and> list_all (in_class ic cl) (take n s) \<and> rx_test ic its (drop n s))"
  by simp

lemma rx_hyphen: "rx_test True (hyphen # its) s = (1 \<le> length s \<and> s ! 0 = 45 \<and> rx_test True its (drop 1 s))"
  unfolding hyphen_def rx_fixed in_class_hyphen by (cases s) auto

lemma rx_hex: "rx_test True ((hex_class, n, n) # its) s =
   (n \<le> length s \<and> list_all is_hex (take n s) \<and> rx_test True its (drop n s))"
  unfolding rx_fixed in_class_hex by simp

lemma uuid_rx_a: "rx_test True uuidRegex k =
    (8 \<le> length k \<and> list_all is_hex (take 8 k) \<and> 1 \<le> length (drop 8 k) \<and> drop 8 k ! 0 = 45
     \<and> 4 \<le> length (drop 9 k) \<and> list_all is_hex (take 4 (drop 9 k))
     \<and> 1 \<le> length (drop 13 k) \<and> drop 13 k ! 0 = 45
     \<and> 4 \<le> length (drop 14 k) \<and> list_all is_hex (take 4 (drop 14 k))
     \<and> 1 \<le> length (drop 18 k) \<and> drop 18 k ! 0 = 45
     \<and> 4 \<le> length (drop 19 k) \<and> list_all is_hex (take 4 (drop 19 k))
     \<and> 1 \<le> length (drop 23 k) \<and> drop 23 k ! 0 = 45
     \<and> 12 \<le> length (drop 24 k) \<and> list_all is_hex (take 12 (drop 24 k))
     \<and> drop 36 k = [])"
    unfolding uuidRegex_def
    by (simp only: rx_hex rx_hyphen rx_test.simps(1) drop_drop) simp


lemma uuid_rx: "rx_test True uuidRegex k = uuid_form k"
proof (cases "length k = 36")
  case True
  then show ?thesis
    unfolding uuid_rx_a uuid_form_def by simp
next
  case False
  have "\<not> uuid_form k" using False by (simp add: uuid_form_def)
  moreover have "\<not> rx_test True uuidRegex k"
  proof
    assume "rx_test True uuidRegex k"
    then have "12 \<le> length (drop 24 k)" "drop 36 k = []"
      unfolding uuid_rx_a by blast+
    then have "length k = 36" by simp
    with False show False by simp
  qed
  ultimately show ?thesis by simp
qed

lemma in_class_alnum: "in_class False [(97, 122), (65, 90), (48, 57)] = is_alnum"
  by (rule ext) (auto simp: in_class_def is_alnum_def)

lemma gitee_rx: "rx_test False giteeRegex k = alnum_30_60 k"
proof -
  have "rx_test False giteeRegex k =
     (\<exists>d. 30 \<le> d \<and> d \<le> 60 \<and> d \<le> length k \<and> list_all is_alnum (take d k) \<and> drop d k = [])"
    unfolding giteeRegex_def
    by (simp only: rx_test.simps list_ex_upt in_class_alnum)
  also have "\<dots> = alnum_30_60 k"
    unfolding alnum_30_60_def
  proof (intro iffI)
    assume "\<exists>d. 30 \<le> d \<and> d \<le> 60 \<and> d \<le> length k \<and> list_all is_alnum (take d k) \<and> drop d k = []"
    then obtain d where d: "30 \<le> d" "d \<le> 60" "d \<le> length k" "list_all is_alnum (take d k)"
      "drop d k = []" by blast
    from d(3,5) have "d = length k" by simp
    with d show "30 \<le> length k \<and> length k \<le> 60 \<and> list_all is_alnum k" by simp
  next
    assume "30 \<le> length k \<and> length k \<le> 60 \<and> list_all is_alnum k"
    then show "\<exists>d. 30 \<le> d \<and> d \<le> 60 \<and> d \<le> length k \<and> list_all is_alnum (take d k) \<and> drop d k = []"
      by (intro exI[of _ "length k"]) simp
  qed
  finally show ?thesis .
qed

lemma len3: "length [a, b, c] = 3"
  by simp

lemma startsWith_hf: "startsWith k (str ''hf_'') = (take 3 k = [104, 102, 95])"
  by (simp only: startsWith_def str_hf len3)

lemma startsWith_ms: "startsWith k (str ''ms-'') = (take 3 k = [109, 115, 45])"
  by (simp only: startsWith_def str_ms len3)

lemma detectProvider_cases:
  "detectProvider k =
     (if k = [] then (Unknown, [])
      else if take 3 k = [104, 102, 95] then (HuggingFace, [(HuggingFace, substring k 0 4)])
      else if take 3 k = [109, 115, 45] then (ModelScope, [(ModelScope, substring k 0 4)])
      else if uuid_form k then (VolcEngine, [(VolcEngine, substring k 0 4)])
      else if alnum_30_60 k then (Gitee, [(Gitee, substring k 0 4)])
      else (Unknown, [(Unknown, substring k 0 4)]))"
  by (simp only: detectProvider_def truthy_str_def startsWith_hf startsWith_ms uuid_rx gitee_rx not_not)

text \<open>
  Claim C1. For every credential, \<^verbatim>\<open>detectProvider\<close> returns the provider that the
  fixed rule order determines: Unknown for the empty credential, else HuggingFace for the prefix
  \<^verbatim>\<open>hf_\<close>, else ModelScope for the prefix \<^verbatim>\<open>ms-\<close>, else VolcEngine for the
  canonical UUID form in either case, else Gitee for 30 to 60 letters and digits, else Unknown.
  The two regular expressions of the source are compared with the shapes in the
  specification's words (\<open>uuid_form\<close>, \<open>alnum_30_60\<close>).
\<close>

theorem detectProvider_rule_order: "fst (detectProvider k) = classify_rules k"
  by (simp only: detectProvider_cases classify_rules_def if_distrib[of fst] fst_conv)


theorem detectProvider_rule_order_witness:
  "fst (detectProvider (str ''hf_abc'')) = HuggingFace
   \<and> fst (detectProvider (str ''ms-abc'')) = ModelScope
   \<and> fst (detectProvider (str ''123e4567-e89b-12d3-A456-426614174000'')) = VolcEngine
   \<and> fst (detectProvider (str ''abcdefghijklmnopqrstuvwxyz0123456789'')) = Gitee
   \<and> fst (detectProvider []) = Unknown
   \<and> fst (detectProvider (str ''abcd'')) = Unknown"
  unfolding detectProvider_rule_order by code_simp

text \<open>
  Claim C7, amended. For every credential that is not empty, \<^verbatim>\<open>detectProvider\<close> makes
  exactly one call of \<^verbatim>\<open>logProviderRouting\<close>, with the provider it returns and the first
  four code units of the credential; that prefix differs from the credential when the credential
  has more than four code units. For the empty credential it returns Unknown and logs nothing.
  The function has no error branch.
\<close>

theorem detectProvider_routing_event:
  "(k \<noteq> [] \<longrightarrow> snd (detectProvider k) = [(fst (detectProvider k), take 4 k)])
   \<and> (4 < length k \<longrightarrow> take 4 k \<noteq> k)
   \<and> detectProvider [] = (Unknown, [])"
proof -
  have "take 4 k \<noteq> k" if "4 < length k"
  proof
    assume "take 4 k = k"
    then have "length (take 4 k) = length k" by simp
    with that show False by simp
  qed
  moreover have "snd (detectProvider k) = [(fst (detectProvider k), take 4 k)]" if "k \<noteq> []"
    using that by (simp add: detectProvider_cases substring_def)
  moreover have "detectProvider [] = (Unknown, [])"
    by (simp add: detectProvider_cases)
  ultimately show ?thesis by blast
qed

theorem detectProvider_routing_event_witness:
  "str ''ms-0123456789'' \<noteq> [] \<and> 4 < length (str ''ms-0123456789'')
   \<and> snd (detectProvider (str ''ms-0123456789'')) = [(ModelScope, str ''ms-0'')]
   \<and> str ''ms-0'' \<noteq> str ''ms-0123456789''"
proof -
  have p: "fst (detectProvider (str ''ms-0123456789'')) = ModelScope" by code_simp
  have t: "take 4 (str ''ms-0123456789'') = str ''ms-0''" by code_simp
  have n: "str ''ms-0123456789'' \<noteq> []" by (simp add: str_def)
  have l: "4 < length (str ''ms-0123456789'')" by (simp add: str_def)
  show ?thesis
    using detectProvider_routing_event[of "str ''ms-0123456789''"] n l
    by (simp only: p t) simp
qed

text \<open>The claim as stated fails twice: the empty credential is answered without any event,
  and a credential of at most four code units is logged whole.\<close>

theorem detectProvider_routing_event_counterexample:
  "snd (detectProvider []) = []
   \<and> snd (detectProvider (str ''hf_a'')) = [(HuggingFace, str ''hf_a'')]"
  by code_simp



subsection \<open>The transcript extractor\<close>



lemma keep_first_set: "set s = set s' \<Longrightarrow> keep_first s xs = keep_first s' xs"
proof (induction xs arbitrary: s s')
  case Nil
  show ?case by simp
next
  case (Cons x xs)
  from Cons.prems have m: "(x \<in> set s) = (x \<in> set s')" by blast
  from Cons.prems have "set (x # s) = set (x # s')" by simp
  then have a: "keep_first (x # s) xs = keep_first (x # s') xs" by (rule Cons.IH)
  have b: "keep_first s xs = keep_first s' xs" using Cons.prems by (rule Cons.IH)
  show ?case by (simp only: keep_first.simps m a b)
qed

lemma push_missing_keep_first: "push_missing fin hist = fin @ keep_first fin hist"
proof (induction hist arbitrary: fin)
  case Nil
  then show ?case by simp
next
  case (Cons h hist)
  have "keep_first (fin @ [h]) hist = keep_first (h # fin) hist"
    by (rule keep_first_set) auto
  with Cons show ?case by simp
qed


lemma keep_first_props:
  "distinct (keep_first seen hist) \<and> set (keep_first seen hist) = set hist - set seen"
  by (induction hist arbitrary: seen) auto





lemma str_neq: "str ''http://a'' \<noteq> str ''http://b''" "str ''http://a'' \<noteq> str ''http://c''"
  "str ''http://b'' \<noteq> str ''http://c''" "str ''http://a'' \<noteq> []" "str ''http://b'' \<noteq> []"
  "str ''http://b'' \<noteq> str ''http://a''" "str ''http://c'' \<noteq> str ''http://a''"
  "str ''http://c'' \<noteq> str ''http://b''"
  by (simp_all add: str_def)

lemma nth_1_of_2: "[a, b] ! 1 = b"
  by simp





lemma extract_images_form:
  "images (extractPromptAndImages ms) =
     current_turn ms @ keep_first (current_turn ms)
       (case last_user_below ms (length ms) of None \<Rightarrow> [] | Some L \<Rightarrow> history_below ms L)"
  by (simp add: extractPromptAndImages_def current_turn_def push_missing_keep_first
      split: option.split)

text \<open>
  Claim C6, amended. For every transcript the image list starts with the current-turn images
  as the user message gives them; the entries after them are pairwise different and differ
  from every current-turn entry; so the list has no duplicate whenever the current-turn images
  have none. Duplicates among the current-turn images themselves are kept.
\<close>

theorem extract_images_current_first:
  "take (length (current_turn ms)) (images (extractPromptAndImages ms)) = current_turn ms
   \<and> distinct (drop (length (current_turn ms)) (images (extractPromptAndImages ms)))
   \<and> set (drop (length (current_turn ms)) (images (extractPromptAndImages ms)))
        \<inter> set (current_turn ms) = {}
   \<and> (distinct (current_turn ms) \<longrightarrow> distinct (images (extractPromptAndImages ms)))"
  unfolding extract_images_form using keep_first_props by auto

theorem extract_images_current_first_witness:
  "current_turn transcript_abc = [str ''http://a'']
   \<and> distinct (current_turn transcript_abc)
   \<and> distinct (images (extractPromptAndImages transcript_abc))"
proof -
  have l: "last_user_below transcript_abc (length transcript_abc) = Some 1"
    by (simp add: transcript_abc_def numeral_2_eq_2)
  have u: "user_images (content (transcript_abc ! 1)) = [str ''http://a'']"
    by (simp only: transcript_abc_def nth_1_of_2) (simp add: image_urls_def truthy_str_def str_neq)
  have c: "current_turn transcript_abc = [str ''http://a'']"
    by (simp only: current_turn_def l option.case u)
  show ?thesis using extract_images_current_first[of transcript_abc] by (simp add: c)
qed

text \<open>A user message that carries the same image twice.\<close>

theorem extract_images_duplicate_counterexample:
  "images (extractPromptAndImages transcript_cur_dup) = [str ''http://a'', str ''http://a'']
   \<and> \<not> distinct (images (extractPromptAndImages transcript_cur_dup))"
proof -
  have l: "last_user_below transcript_cur_dup (length transcript_cur_dup) = Some 0"
    by (simp add: transcript_cur_dup_def)
  have u: "user_images (content (transcript_cur_dup ! 0)) = [str ''http://a'', str ''http://a'']"
    by (simp add: transcript_cur_dup_def image_urls_def truthy_str_def str_neq)
  show ?thesis
    by (simp only: extractPromptAndImages_def l option.case extraction.select_convs u) simp
qed

subsection \<open>The markdown of the generated images\<close>

lemma str_nonempty: "str (c # cs) \<noteq> []"
  by (simp add: str_def)













lemma field_names: "str ''url'' \<noteq> str ''b64_json''" "str ''b64_json'' \<noteq> str ''url''"
  by (simp_all add: str_def)

text \<open>On an entry of the declared type the callback of the adapters is \<open>format_image\<close>, and
  on a list of such entries their expression is \<open>format_images\<close>.\<close>

lemma format_entry_typed: "format_entry rt (json_of_image img) = format_image img"
  by (cases "url img"; cases "b64_json img")
     (simp_all add: format_entry_def format_image_def json_of_image_def truthy_prop_def
        truthy_opt_def truthy_str_def string_of_def template_def field_names)

lemma format_entries_typed: "format_entries rt (map json_of_image imgs) = format_images imgs"
  by (simp add: format_entries_def format_images_def comp_def format_entry_typed)

lemma mapped_entries_typed:
  "mapped_entries rt (JArr (map json_of_image imgs)) = Inr (format_images imgs)"
proof -
  have "JNull \<notin> set (map json_of_image imgs)"
    by (auto simp: json_of_image_def)
  then show ?thesis
    by (simp add: mapped_entries_def format_entries_typed)
qed

subsection \<open>The event stream parser\<close>

lemma last_event_snoc:
  "last_event (pre @ [l]) = (case event_type l of Some t \<Rightarrow> Some t | None \<Rightarrow> last_event pre)"
  by (induction pre) (auto split: option.splits)

lemma event_not_data: "startsWith l (str ''event:'') \<Longrightarrow> \<not> startsWith l (str ''data:'')"
  by (cases l) (auto simp: startsWith_def str_def)

lemma line_verdict_here:
  "line_verdict parse (pre @ l # ls) (length pre) =
     (if event_type l = Some (str ''error'') then Some Raise
      else if last_event pre = Some (str ''complete'') then map_option Url (payload_url parse l)
      else None)"
  by (simp add: line_verdict_def)

lemma line_verdict_shift:
  "line_verdict parse (pre @ l # ls) (length pre + Suc k) =
   line_verdict parse ((pre @ [l]) @ ls) (length (pre @ [l]) + k)"
  by simp

lemma str_complete_neq_error: "str ''complete'' \<noteq> str ''error''"
  by (simp add: str_def)

lemma sse_lines_step:
  "sse_lines parse (l # ls) (last_event pre = Some (str ''complete'')) =
     (case line_verdict parse (pre @ l # ls) (length pre) of
        Some Raise \<Rightarrow> Inl SseErrorEvent
      | Some (Url u) \<Rightarrow> Inr (Some u)
      | None \<Rightarrow> sse_lines parse ls (last_event (pre @ [l]) = Some (str ''complete'')))"
proof (cases "startsWith l (str ''event:'')")
  case True
  then have nd: "payload_url parse l = None"
    by (simp add: payload_url_def event_not_data)
  from True have et: "event_type l = Some (trim (drop 6 l))"
    by (simp add: event_type_def)
  show ?thesis
    using True
    by (simp add: line_verdict_here last_event_snoc et nd substring_from_def Let_def
        str_complete_neq_error)
next
  case False
  then have et: "event_type l = None" by (simp add: event_type_def)
  show ?thesis
    using False
    by (simp add: line_verdict_here last_event_snoc et payload_url_def substring_from_def Let_def
        split: option.splits)
qed

lemma sse_lines_verdicts:
  "sse_lines parse ls (last_event pre = Some (str ''complete'')) =
   first_verdict (map (\<lambda>k. line_verdict parse (pre @ ls) (length pre + k)) [0..<length ls])"
proof (induction ls arbitrary: pre)
  case Nil
  show ?case by simp
next
  case (Cons l ls)
  have m: "map (\<lambda>k. line_verdict parse (pre @ l # ls) (length pre + k)) [0..<length (l # ls)] =
      line_verdict parse (pre @ l # ls) (length pre)
        # map (\<lambda>k. line_verdict parse ((pre @ [l]) @ ls) (length (pre @ [l]) + k)) [0..<length ls]"
    by (simp add: upt_conv_Cons map_Suc_upt[symmetric] del: upt_Suc)
  show ?case
    unfolding m sse_lines_step[of parse l ls pre] Cons.IH[of "pre @ [l]"]
    by (cases "line_verdict parse (pre @ l # ls) (length pre)" rule: first_verdict.cases[of "_ # _"])
       (auto split: option.splits verdict.splits)
qed

text \<open>
  Claim C5. For every text stream and every behaviour of \<^verbatim>\<open>JSON.parse\<close>, the parser
  returns what the first line with a verdict decides, in the order of the lines: an event line
  of type \<^verbatim>\<open>error\<close> raises; a \<^verbatim>\<open>data:\<close> line whose most recently seen event line has
  type \<^verbatim>\<open>complete\<close> returns the \<^verbatim>\<open>url\<close> field of the first element of its JSON array;
  a data line after any other event type, or before any event line, is ignored; without a
  verdict the result is \<^verbatim>\<open>null\<close>.
\<close>

theorem extractImageUrlFromSSE_first_verdict:
  "extractImageUrlFromSSE parse s = first_verdict (stream_verdicts parse (split_on 10 s))
   \<and> (map_of kvs (str ''url'') = Some u \<and> truthy u \<longrightarrow> first_url (JArr (JObj kvs # others)) = Some u)"
  using sse_lines_verdicts[of parse "split_on 10 s" "[]"]
  by (simp add: extractImageUrlFromSSE_def stream_verdicts_def first_url_def)

lemma split_acc_no_sep:
  "sep \<notin> set l \<Longrightarrow> split_acc sep cur (l @ sep # rest) = (rev cur @ l) # split_acc sep [] rest"
  by (induction l arbitrary: cur) auto

lemma split_acc_last: "sep \<notin> set l \<Longrightarrow> split_acc sep cur l = [rev cur @ l]"
  by (induction l arbitrary: cur) auto

lemma example_lines:
  "split_on 10 example_stream =
     [str ''event: generating'', str ''data: '' @ payload_text (str ''https://early''),
      str ''event: complete'', str ''data: '' @ payload_text (str ''https://img'')]"
proof -
  have a: "10 \<notin> set (str ''event: generating'')" by (simp add: str_def)
  have b: "10 \<notin> set (str ''data: '' @ payload_text (str ''https://early''))"
    by (simp add: str_def payload_text_def)
  have c: "10 \<notin> set (str ''event: complete'')" by (simp add: str_def)
  have d: "10 \<notin> set (str ''data: '' @ payload_text (str ''https://img''))"
    by (simp add: str_def payload_text_def)
  have "split_on 10 example_stream =
      split_acc 10 [] (str ''event: generating'' @ 10 #
        ((str ''data: '' @ payload_text (str ''https://early'')) @ 10 #
          (str ''event: complete'' @ 10 # (str ''data: '' @ payload_text (str ''https://img'')))))"
    by (simp add: split_on_def example_stream_def)
  also have "\<dots> = [str ''event: generating'', str ''data: '' @ payload_text (str ''https://early''),
      str ''event: complete'', str ''data: '' @ payload_text (str ''https://img'')]"
    by (simp only: split_acc_no_sep[OF a] split_acc_no_sep[OF b] split_acc_no_sep[OF c]
        split_acc_last[OF d] rev.simps append_Nil)
  finally show ?thesis .
qed

lemma ev_generating: "event_type (str ''event: generating'') = Some (str ''generating'')"
  by (simp add: event_type_def startsWith_def trim_def is_js_space_def str_def)

lemma ev_complete: "event_type (str ''event: complete'') = Some (str ''complete'')"
  by (simp add: event_type_def startsWith_def trim_def is_js_space_def str_def)

lemma ev_data: "event_type (str ''data: '' @ t) = None"
  by (simp add: event_type_def startsWith_def str_def)

lemma payload_img:
  "payload_url example_parse (str ''data: '' @ payload_text (str ''https://img'')) =
     Some (JStr (str ''https://img''))"
  by (simp add: payload_url_def startsWith_def trim_def is_js_space_def payload_text_def
      example_parse_def first_url_def str_def)

lemma payload_event: "payload_url parse (str ''event: complete'') = None"
  by (simp add: payload_url_def startsWith_def str_def)

lemma example_verdicts:
  "stream_verdicts example_parse (split_on 10 example_stream) =
     [None, None, None, Some (Url (JStr (str ''https://img'')))]"
proof -
  have g: "str ''generating'' \<noteq> str ''error''" "str ''generating'' \<noteq> str ''complete''"
    "str ''complete'' \<noteq> str ''error''"
    by (simp_all add: str_def)
  have u: "[0..<4] = [0, 1, 2, 3]" by (simp add: upt_rec)
  show ?thesis
    unfolding example_lines stream_verdicts_def
    by (simp add: u line_verdict_def ev_generating ev_complete ev_data payload_img payload_event g)
qed

lemma example_stream_result:
  "extractImageUrlFromSSE example_parse example_stream = Inr (Some (JStr (str ''https://img'')))"
  using sse_lines_verdicts[of example_parse "split_on 10 example_stream" "[]"] example_verdicts
  by (simp add: extractImageUrlFromSSE_def stream_verdicts_def)

text \<open>In the example stream the payload after the event \<^verbatim>\<open>generating\<close> is ignored
  and the one after \<^verbatim>\<open>complete\<close> is returned.\<close>

theorem extractImageUrlFromSSE_first_verdict_witness:
  "extractImageUrlFromSSE example_parse example_stream = Inr (Some (JStr (str ''https://img'')))"
  using extractImageUrlFromSSE_first_verdict[of example_parse example_stream]
  by (simp add: example_verdicts)

subsection \<open>The polling loop\<close>




lemma fetched_append: "fetched (a @ b) = fetched a @ fetched b"
  by (induction a rule: fetched.induct) auto













subsection \<open>The submit-and-poll adapter\<close>









lemma accepted_reply_fields:
  "accepted_reply = Resolved resp \<Longrightarrow>
     resp_ok resp \<and> resp_json resp = Some (JObj [(str ''task_id'', JStr (str ''task-1''))])"
  by (auto simp: accepted_reply_def)



subsection \<open>The size of a Hugging Face image\<close>

lemma split_on_first: "sep \<notin> set l \<Longrightarrow> split_on sep (l @ sep # rest) = l # split_on sep rest"
  by (simp add: split_on_def split_acc_no_sep)

lemma split_on_single: "sep \<notin> set l \<Longrightarrow> split_on sep l = [l]"
  by (simp add: split_on_def split_acc_last)

lemma or_1024_truthy: "truthy_num (or_1024 v)"
  by (simp add: or_1024_def truthy_num_def split: option.splits)

lemma truthy_num_not_NaN: "truthy_num n \<Longrightarrow> n \<noteq> NaN \<and> n \<noteq> Finite 0"
  by (auto simp: truthy_num_def)

lemma size_parts_two:
  assumes "120 \<notin> set w" and "120 \<notin> set h" and "rest = [] \<or> hd rest = 120"
  shows "nth_opt (size_parts rt (w @ 120 # h @ rest)) 0 = Some (js_Number rt w)"
    and "nth_opt (size_parts rt (w @ 120 # h @ rest)) 1 = Some (js_Number rt h)"
proof -
  have "\<exists>more. split_on 120 (h @ rest) = h # more"
  proof (cases rest)
    case Nil
    then show ?thesis using assms(2) by (simp add: split_on_single)
  next
    case (Cons c cs)
    with assms(3) have "rest = 120 # cs" by simp
    then show ?thesis using assms(2) by (simp add: split_on_first)
  qed
  then obtain others where "split_on 120 (h @ rest) = h # others" by blast
  then have s: "split_on 120 (w @ 120 # h @ rest) = w # h # others"
    using assms(1) by (simp add: split_on_first)
  show "nth_opt (size_parts rt (w @ 120 # h @ rest)) 0 = Some (js_Number rt w)"
    by (simp add: size_parts_def s nth_opt_def)
  show "nth_opt (size_parts rt (w @ 120 # h @ rest)) 1 = Some (js_Number rt h)"
    by (simp add: size_parts_def s nth_opt_def)
qed

lemma size_parts_one:
  assumes "120 \<notin> set sz"
  shows "nth_opt (size_parts rt sz) 0 = Some (js_Number rt sz)"
    and "nth_opt (size_parts rt sz) 1 = None"
  using assms by (simp_all add: size_parts_def split_on_single nth_opt_def)

text \<open>The width and the height before they are written into the payload: never
  \<^verbatim>\<open>NaN\<close> and never zero; the parts of a size \<^verbatim>\<open>WxH\<close> that \<^verbatim>\<open>Number\<close> turns into a
  number other than zero, and 1024 otherwise.\<close>

lemma payload_dimensions:
  "truthy_num (payload_width rt sz) \<and> truthy_num (payload_height rt sz)
   \<and> payload_width rt sz \<noteq> NaN \<and> payload_height rt sz \<noteq> NaN
   \<and> payload_width rt sz \<noteq> Finite 0 \<and> payload_height rt sz \<noteq> Finite 0
   \<and> (\<forall>w h rest. sz = w @ 120 # h @ rest \<and> 120 \<notin> set w \<and> 120 \<notin> set h
          \<and> (rest = [] \<or> hd rest = 120) \<longrightarrow>
        payload_width rt sz = (if truthy_num (js_Number rt w) then js_Number rt w else Finite 1024)
        \<and> payload_height rt sz = (if truthy_num (js_Number rt h) then js_Number rt h else Finite 1024))
   \<and> (120 \<notin> set sz \<longrightarrow>
        payload_width rt sz = (if truthy_num (js_Number rt sz) then js_Number rt sz else Finite 1024)
        \<and> payload_height rt sz = Finite 1024)"
proof -
  have a: "truthy_num (payload_width rt sz)" "truthy_num (payload_height rt sz)"
    by (simp_all add: payload_width_def payload_height_def or_1024_truthy)
  have b: "payload_width rt sz = (if truthy_num (js_Number rt w) then js_Number rt w else Finite 1024)
        \<and> payload_height rt sz = (if truthy_num (js_Number rt h) then js_Number rt h else Finite 1024)"
    if "sz = w @ 120 # h @ rest" "120 \<notin> set w" "120 \<notin> set h" "rest = [] \<or> hd rest = 120"
    for w h rest
    using size_parts_two[OF that(2,3,4), of rt] that(1)
    by (simp add: payload_width_def payload_height_def or_1024_def)
  have c: "payload_width rt sz = (if truthy_num (js_Number rt sz) then js_Number rt sz else Finite 1024)
        \<and> payload_height rt sz = Finite 1024" if "120 \<notin> set sz"
    using size_parts_one[OF that, of rt]
    by (simp add: payload_width_def payload_height_def or_1024_def)
  from a truthy_num_not_NaN b c show ?thesis by blast
qed


lemma Number_2048: "js_Number rt (str ''2048'') = Finite 2048"
  by (simp add: js_Number_def trim_def is_js_space_def numeric_alphabet_def is_digit_def
      digits_value_def str_def)

lemma Number_2K: "js_Number rt (str ''2K'') = NaN"
  by (simp add: js_Number_def trim_def is_js_space_def numeric_alphabet_def is_digit_def
      digits_value_def str_def)

lemma Number_minus_5: "js_Number rt (str ''-5'') = Finite (- 5)"
  by (simp add: js_Number_def trim_def is_js_space_def numeric_alphabet_def is_digit_def
      digits_value_def str_def)

subsection \<open>The submitted payload\<close>

lemma posted_append: "posted (a @ b) = posted a @ posted b"
  by (induction a rule: posted.induct) auto

lemma try_url_posted:
  "\<exists>ext. snd (try_url rt hs b base tr) = tr @ ext \<and> posted ext = [JsonBody b]"
  by (auto simp: try_url_def fetchWithTimeout_def Let_def
      split: fetch_result.splits option.splits sum.splits)

lemma failover_posted:
  "\<exists>ext. snd (failover rt hs b urls lastError tr) = tr @ ext
     \<and> set (posted ext) \<subseteq> {JsonBody b} \<and> (urls \<noteq> [] \<longrightarrow> posted ext \<noteq> [])"
proof (induction urls arbitrary: lastError tr)
  case Nil
  then show ?case by simp
next
  case (Cons base rest)
  obtain e1 where e1: "snd (try_url rt hs b base tr) = tr @ e1" "posted e1 = [JsonBody b]"
    using try_url_posted by blast
  show ?case
  proof (cases "fst (try_url rt hs b base tr)")
    case (Inr result)
    then have "snd (failover rt hs b (base # rest) lastError tr) = tr @ e1"
      by (simp add: e1)
    with e1 show ?thesis by auto
  next
    case (Inl err)
    from Cons.IH[of "Some err" "tr @ e1"]
    obtain e2 where e2: "snd (failover rt hs b rest (Some err) (tr @ e1)) = (tr @ e1) @ e2"
      "set (posted e2) \<subseteq> {JsonBody b}" by blast
    from Inl have "snd (failover rt hs b (base # rest) lastError tr) = tr @ (e1 @ e2)"
      by (simp add: e1 e2)
    moreover have "set (posted (e1 @ e2)) \<subseteq> {JsonBody b}" "posted (e1 @ e2) \<noteq> []"
      using e1 e2 by (auto simp: posted_append)
    ultimately show ?thesis by blast
  qed
qed

lemma handleHuggingFace_posted:
  "set (posted (drop (length tr) (snd (handleHuggingFace rt cfg apiKey reqBody prompt_text imgs tr))))
     \<subseteq> {JsonBody (hf_request_body rt prompt_text
            (or_else (string_of (size_str reqBody)) (defaultSize cfg)))}
   \<and> (apiUrls cfg \<noteq> [] \<longrightarrow>
        posted (drop (length tr) (snd (handleHuggingFace rt cfg apiKey reqBody prompt_text imgs tr)))
          \<noteq> [])"
proof -
  define b where "b = hf_request_body rt prompt_text
      (or_else (string_of (size_str reqBody)) (defaultSize cfg))"
  obtain w where w: "hf_warned imgs tr = tr @ w" "posted w = []"
    by (cases "length imgs > 0") (simp_all add: hf_warned_def)
  obtain ext where ext: "snd (failover rt (hf_headers apiKey) b (apiUrls cfg) None (tr @ w)) = (tr @ w) @ ext"
    "set (posted ext) \<subseteq> {JsonBody b}" "apiUrls cfg \<noteq> [] \<longrightarrow> posted ext \<noteq> []"
    using failover_posted by blast
  show ?thesis
  proof (cases "apiUrls cfg = []")
    case True
    then show ?thesis
      by (simp add: handleHuggingFace_def Let_def w)
  next
    case False
    then have "snd (handleHuggingFace rt cfg apiKey reqBody prompt_text imgs tr) = tr @ (w @ ext)"
      by (simp add: handleHuggingFace_def Let_def w b_def[symmetric] ext)
    then show ?thesis
      using ext w False by (simp add: posted_append b_def)
  qed
qed

lemma slot_of_body:
  "payload_slot (JsonBody (hf_request_body rt prompt_text sz)) 1 = Some (json_of_num (payload_height rt sz))"
  "payload_slot (JsonBody (hf_request_body rt prompt_text sz)) 2 = Some (json_of_num (payload_width rt sz))"
  by (simp_all add: payload_slot_def hf_request_body_def nth_opt_def)

lemma json_of_or_1024:
  "json_of_num (or_1024 v) = (case v of None \<Rightarrow> JNum 1024 | Some n \<Rightarrow> submitted_dimension n)"
  by (simp add: or_1024_def json_of_num_def submitted_dimension_def truthy_num_def
      split: option.splits jsnum.splits)

lemma submitted_dimension_shape:
  "submitted_dimension n = JNull \<or> (\<exists>r. r \<noteq> 0 \<and> submitted_dimension n = JNum r)"
  by (simp add: submitted_dimension_def split: jsnum.splits)

lemma json_of_dimension_shape:
  "json_of_num (or_1024 v) = JNull \<or> (\<exists>r. r \<noteq> 0 \<and> json_of_num (or_1024 v) = JNum r)"
  unfolding json_of_or_1024 using submitted_dimension_shape by (cases v) simp_all

text \<open>
  Claim C10, amended. Every payload that \<^verbatim>\<open>handleHuggingFace\<close> submits, and it submits at
  least one when the pool is not empty, holds a width and a height, each of them
  \<^verbatim>\<open>null\<close> or a number other than zero: never \<^verbatim>\<open>NaN\<close>, \<^verbatim>\<open>undefined\<close> or zero. For a
  size of the form \<^verbatim>\<open>WxH\<close> a part that \<^verbatim>\<open>Number\<close> turns into a finite number other than
  zero is submitted as it is, be it negative or fractional; a part that gives an infinity is
  submitted as \<^verbatim>\<open>null\<close>; a part that gives zero or \<^verbatim>\<open>NaN\<close>, and the height of a size
  without an \<^verbatim>\<open>x\<close>, are submitted as 1024.
\<close>

theorem handleHuggingFace_payload_dimensions:
  fixes rt cfg apiKey reqBody prompt_text imgs tr
  defines "sz \<equiv> or_else (string_of (size_str reqBody)) (defaultSize cfg)"
    and "sent \<equiv> posted (drop (length tr)
                   (snd (handleHuggingFace rt cfg apiKey reqBody prompt_text imgs tr)))"
  shows
    "(apiUrls cfg \<noteq> [] \<longrightarrow> sent \<noteq> [])
     \<and> (\<forall>b \<in> set sent.
          (\<exists>w h. payload_slot b 2 = Some w \<and> payload_slot b 1 = Some h
                \<and> (w = JNull \<or> (\<exists>r. r \<noteq> 0 \<and> w = JNum r))
                \<and> (h = JNull \<or> (\<exists>r. r \<noteq> 0 \<and> h = JNum r)))
          \<and> (\<forall>w h rest. sz = w @ 120 # h @ rest \<and> 120 \<notin> set w \<and> 120 \<notin> set h
                 \<and> (rest = [] \<or> hd rest = 120) \<longrightarrow>
                payload_slot b 2 = Some (submitted_dimension (js_Number rt w))
                \<and> payload_slot b 1 = Some (submitted_dimension (js_Number rt h)))
          \<and> (120 \<notin> set sz \<longrightarrow>
                payload_slot b 2 = Some (submitted_dimension (js_Number rt sz))
                \<and> payload_slot b 1 = Some (JNum 1024)))"
proof -
  have sent: "set sent \<subseteq> {JsonBody (hf_request_body rt prompt_text sz)}"
    and some: "apiUrls cfg \<noteq> [] \<longrightarrow> sent \<noteq> []"
    unfolding sent_def sz_def using handleHuggingFace_posted by blast+
  let ?b = "JsonBody (hf_request_body rt prompt_text sz)"
  have shape: "\<exists>w h. payload_slot ?b 2 = Some w \<and> payload_slot ?b 1 = Some h
                \<and> (w = JNull \<or> (\<exists>r. r \<noteq> 0 \<and> w = JNum r))
                \<and> (h = JNull \<or> (\<exists>r. r \<noteq> 0 \<and> h = JNum r))"
    unfolding slot_of_body payload_width_def payload_height_def
    using json_of_dimension_shape by blast
  have two: "payload_slot ?b 2 = Some (submitted_dimension (js_Number rt w))
                \<and> payload_slot ?b 1 = Some (submitted_dimension (js_Number rt h))"
    if "sz = w @ 120 # h @ rest" "120 \<notin> set w" "120 \<notin> set h" "rest = [] \<or> hd rest = 120"
    for w h rest
    unfolding slot_of_body payload_width_def payload_height_def json_of_or_1024 that(1)
    using size_parts_two[OF that(2,3,4), of rt] by simp
  have one: "payload_slot ?b 2 = Some (submitted_dimension (js_Number rt sz))
                \<and> payload_slot ?b 1 = Some (JNum 1024)" if "120 \<notin> set sz"
    unfolding slot_of_body payload_width_def payload_height_def json_of_or_1024
    using size_parts_one[OF that, of rt] by simp
  have "b = ?b" if "b \<in> set sent" for b
    using sent that by blast
  with some shape two one show ?thesis
    by blast
qed


lemma Number_Infinity: "js_Number reads_infinity (str ''Infinity'') = PosInfinity"
  by (simp add: js_Number_def trim_def is_js_space_def numeric_alphabet_def is_digit_def
      reads_infinity_def str_def)

lemma Number_7: "js_Number rt (str ''7'') = Finite 7"
  by (simp add: js_Number_def trim_def is_js_space_def numeric_alphabet_def is_digit_def
      digits_value_def str_def)

text \<open>With the default size \<^verbatim>\<open>2048x2048\<close> the payload holds 2048 twice; with the size
  \<^verbatim>\<open>2K\<close> it holds 1024 twice; with the size \<^verbatim>\<open>Infinityx7\<close>, on a runtime that
  reads the first part as an infinity, it holds \<^verbatim>\<open>null\<close> for the width and 7 for the
  height.\<close>

theorem handleHuggingFace_payload_dimensions_witness:
  "posted (snd (handleHuggingFace flaky four_urls (str ''hf_key'') no_fields
                  (str ''a red fox'') [] [])) \<noteq> []
   \<and> payload_slot (hd (posted (snd (handleHuggingFace flaky four_urls (str ''hf_key'') no_fields
                  (str ''a red fox'') [] [])))) 2 = Some (JNum 2048)
   \<and> payload_slot (hd (posted (snd (handleHuggingFace flaky four_urls (str ''hf_key'') no_fields
                  (str ''a red fox'') [] [])))) 1 = Some (JNum 2048)
   \<and> payload_slot (hd (posted (snd (handleHuggingFace flaky four_urls (str ''hf_key'')
                  (sized ''2K'') (str ''a red fox'') [] [])))) 2 = Some (JNum 1024)
   \<and> payload_slot (hd (posted (snd (handleHuggingFace flaky four_urls (str ''hf_key'')
                  (sized ''2K'') (str ''a red fox'') [] [])))) 1 = Some (JNum 1024)
   \<and> payload_slot (hd (posted (snd (handleHuggingFace reads_infinity four_urls (str ''hf_key'')
                  (sized ''Infinityx7'') (str ''a red fox'') [] [])))) 2 = Some JNull
   \<and> payload_slot (hd (posted (snd (handleHuggingFace reads_infinity four_urls (str ''hf_key'')
                  (sized ''Infinityx7'') (str ''a red fox'') [] [])))) 1 = Some (JNum 7)"
proof -
  define sent where "sent rb = posted (drop (length ([]::trace))
      (snd (handleHuggingFace flaky four_urls (str ''hf_key'') rb (str ''a red fox'') [] [])))"
    for rb
  have pool: "apiUrls four_urls \<noteq> []"
    by (simp add: four_urls_def)
  have sz1: "or_else (string_of (size_str no_fields)) (defaultSize four_urls) =
      str ''2048'' @ 120 # str ''2048'' @ []"
    by (simp add: no_fields_def four_urls_def or_else_def string_of_def truthy_str_def str_def)
  have sz2: "or_else (string_of (size_str (sized ''2K''))) (defaultSize four_urls) = str ''2K''"
    by (simp add: sized_def no_fields_def or_else_def string_of_def truthy_str_def str_nonempty)
  have n: "120 \<notin> set (str ''2048'')" "120 \<notin> set (str ''2K'')"
    by (simp_all add: str_def)
  have d: "submitted_dimension (js_Number flaky (str ''2048'')) = JNum 2048"
    "submitted_dimension (js_Number flaky (str ''2K'')) = JNum 1024"
    by (simp_all add: Number_2048 Number_2K submitted_dimension_def)
  from handleHuggingFace_payload_dimensions [where rt = flaky and cfg = four_urls
      and apiKey = "str ''hf_key''" and reqBody = no_fields and prompt_text = "str ''a red fox''"
      and imgs = "[]" and tr = "[]"] pool
  have ne1: "sent no_fields \<noteq> []"
    and all1: "\<forall>b \<in> set (sent no_fields).
        (\<forall>w h rest. str ''2048'' @ 120 # str ''2048'' @ [] = w @ 120 # h @ rest
            \<and> 120 \<notin> set w \<and> 120 \<notin> set h \<and> (rest = [] \<or> hd rest = 120) \<longrightarrow>
          payload_slot b 2 = Some (submitted_dimension (js_Number flaky w))
          \<and> payload_slot b 1 = Some (submitted_dimension (js_Number flaky h)))"
    unfolding sent_def sz1 by blast+
  from ne1 have "hd (sent no_fields) \<in> set (sent no_fields)"
    by simp
  with all1 n(1) have 1: "payload_slot (hd (sent no_fields)) 2 = Some (JNum 2048)
      \<and> payload_slot (hd (sent no_fields)) 1 = Some (JNum 2048)"
    unfolding d(1)[symmetric] by blast
  from handleHuggingFace_payload_dimensions [where rt = flaky and cfg = four_urls
      and apiKey = "str ''hf_key''" and reqBody = "sized ''2K''"
      and prompt_text = "str ''a red fox''" and imgs = "[]" and tr = "[]"] pool
  have ne2: "sent (sized ''2K'') \<noteq> []"
    and all2: "\<forall>b \<in> set (sent (sized ''2K'')).
        (120 \<notin> set (str ''2K'') \<longrightarrow>
          payload_slot b 2 = Some (submitted_dimension (js_Number flaky (str ''2K'')))
          \<and> payload_slot b 1 = Some (JNum 1024))"
    unfolding sent_def sz2 by blast+
  from ne2 have "hd (sent (sized ''2K'')) \<in> set (sent (sized ''2K''))"
    by simp
  with all2 n(2) have 2: "payload_slot (hd (sent (sized ''2K''))) 2 = Some (JNum 1024)
      \<and> payload_slot (hd (sent (sized ''2K''))) 1 = Some (JNum 1024)"
    unfolding d(2) by blast
  define sent3 where "sent3 = posted (drop (length ([]::trace))
      (snd (handleHuggingFace reads_infinity four_urls (str ''hf_key'') (sized ''Infinityx7'')
              (str ''a red fox'') [] [])))"
  have sz3: "or_else (string_of (size_str (sized ''Infinityx7''))) (defaultSize four_urls) =
      str ''Infinity'' @ 120 # str ''7'' @ []"
    by (simp add: sized_def no_fields_def or_else_def string_of_def truthy_str_def str_def)
  have n3: "120 \<notin> set (str ''Infinity'')" "120 \<notin> set (str ''7'')"
    by (simp_all add: str_def)
  have d3: "JNull = submitted_dimension (js_Number reads_infinity (str ''Infinity''))"
    "JNum 7 = submitted_dimension (js_Number reads_infinity (str ''7''))"
    by (simp_all add: Number_Infinity Number_7 submitted_dimension_def)
  from handleHuggingFace_payload_dimensions [where rt = reads_infinity and cfg = four_urls
      and apiKey = "str ''hf_key''" and reqBody = "sized ''Infinityx7''"
      and prompt_text = "str ''a red fox''" and imgs = "[]" and tr = "[]"] pool
  have ne3: "sent3 \<noteq> []"
    and all3: "\<forall>b \<in> set sent3.
        (\<forall>w h rest. str ''Infinity'' @ 120 # str ''7'' @ [] = w @ 120 # h @ rest
            \<and> 120 \<notin> set w \<and> 120 \<notin> set h \<and> (rest = [] \<or> hd rest = 120) \<longrightarrow>
          payload_slot b 2 = Some (submitted_dimension (js_Number reads_infinity w))
          \<and> payload_slot b 1 = Some (submitted_dimension (js_Number reads_infinity h)))"
    unfolding sent3_def sz3 by blast+
  from ne3 have "hd sent3 \<in> set sent3"
    by simp
  with all3 n3 have 3: "payload_slot (hd sent3) 2 = Some JNull
      \<and> payload_slot (hd sent3) 1 = Some (JNum 7)"
    unfolding d3 by blast
  from ne1 1 2 3 show ?thesis
    unfolding sent_def sent3_def by simp
qed

lemma minus_5_dimensions:
  "payload_width rt (str ''-5x-5'') = Finite (- 5)"
  "payload_height rt (str ''-5x-5'') = Finite (- 5)"
proof -
  have s: "str ''-5x-5'' = str ''-5'' @ 120 # str ''-5'' @ []"
    by (simp add: str_def)
  have n: "120 \<notin> set (str ''-5'')"
    by (simp add: str_def)
  have "nth_opt (size_parts rt (str ''-5x-5'')) 0 = Some (Finite (- 5))"
    "nth_opt (size_parts rt (str ''-5x-5'')) 1 = Some (Finite (- 5))"
    unfolding s using size_parts_two[OF n n, of "[]" rt] by (simp_all add: Number_minus_5)
  then show "payload_width rt (str ''-5x-5'') = Finite (- 5)"
    "payload_height rt (str ''-5x-5'') = Finite (- 5)"
    by (simp_all add: payload_width_def payload_height_def or_1024_def truthy_num_def)
qed

lemma minus_5_body:
  "hf_request_body rt (str ''a red fox'') (str ''-5x-5'') =
     JObj [(str ''data'',
            JArr [JStr (str ''a red fox''), JNum (- 5), JNum (- 5), JNum 9,
                  JNum (of_nat (random_seed rt)), JBool False])]"
  by (simp add: hf_request_body_def minus_5_dimensions json_of_num_def prompt_or_default_def
      or_else_def truthy_str_def str_nonempty)

text \<open>For the size \<^verbatim>\<open>-5x-5\<close> the one payload that is submitted holds a negative width
  and height.\<close>

theorem hf_payload_negative_counterexample:
  "posted (snd (handleHuggingFace offline one_url (str ''hf_key'') (sized ''-5x-5'')
                  (str ''a red fox'') [] [])) =
     [JsonBody (JObj [(str ''data'',
        JArr [JStr (str ''a red fox''), JNum (- 5), JNum (- 5), JNum 9, JNum 0, JBool False])])]
   \<and> \<not> positive_number (JNum (- 5))"
proof -
  have sz: "or_else (string_of (size_str (sized ''-5x-5''))) (defaultSize one_url) = str ''-5x-5''"
    by (simp add: sized_def no_fields_def or_else_def string_of_def truthy_str_def str_nonempty)
  have pool: "apiUrls one_url = [str ''https://a'']"
    by (simp add: one_url_def)
  have net: "network offline t request = Rejected []" for t request
    by (simp add: offline_def)
  have seed: "random_seed offline = 0"
    by (simp add: offline_def)
  have "posted (snd (handleHuggingFace offline one_url (str ''hf_key'') (sized ''-5x-5'')
                  (str ''a red fox'') [] [])) =
     [JsonBody (hf_request_body offline (str ''a red fox'') (str ''-5x-5''))]"
    by (simp add: handleHuggingFace_def Let_def sz pool hf_warned_def try_url_def
        fetchWithTimeout_def net)
  then show ?thesis
    by (simp add: minus_5_body seed positive_number_def)
qed

subsection \<open>The failover loop\<close>

lemma failover_all_fail:
  "all_fail rt hs b pool tr \<Longrightarrow> pool \<noteq> [] \<Longrightarrow>
   failover rt hs b pool lastError tr =
     (fst (try_url rt hs b (last pool) (trace_after rt hs b (butlast pool) tr)),
      trace_after rt hs b pool tr)
   \<and> isl (fst (try_url rt hs b (last pool) (trace_after rt hs b (butlast pool) tr)))"
proof (induction pool arbitrary: tr lastError)
  case Nil
  then show ?case by simp
next
  case (Cons u pool)
  from Cons.prems(1) have f: "isl (fst (try_url rt hs b u tr))"
    and rest: "all_fail rt hs b pool (snd (try_url rt hs b u tr))"
    by simp_all
  from f obtain e where e: "fst (try_url rt hs b u tr) = Inl e"
    by (cases "fst (try_url rt hs b u tr)") auto
  show ?case
  proof (cases "pool = []")
    case True
    with e f show ?thesis by simp
  next
    case False
    from Cons.IH[OF rest False, of "Some e"] False e show ?thesis by simp
  qed
qed

lemma failover_first_success:
  "all_fail rt hs b pre tr \<Longrightarrow>
   fst (try_url rt hs b u (trace_after rt hs b pre tr)) = Inr result \<Longrightarrow>
   failover rt hs b (pre @ u # post) lastError tr =
     (Inr result, snd (try_url rt hs b u (trace_after rt hs b pre tr)))"
proof (induction pre arbitrary: tr lastError)
  case Nil
  then show ?case by simp
next
  case (Cons v pre)
  from Cons.prems(1) have f: "isl (fst (try_url rt hs b v tr))"
    and rest: "all_fail rt hs b pre (snd (try_url rt hs b v tr))"
    by simp_all
  from f obtain e where e: "fst (try_url rt hs b v tr) = Inl e"
    by (cases "fst (try_url rt hs b v tr)") auto
  from Cons.prems(2) have "fst (try_url rt hs b u
      (trace_after rt hs b pre (snd (try_url rt hs b v tr)))) = Inr result"
    by simp
  from Cons.IH[OF rest this, of "Some e"] e show ?case by simp
qed

lemma fetched_hf_warned: "fetched (hf_warned imgs tr) = fetched tr"
  by (simp add: hf_warned_def fetched_append)

text \<open>
  Claim C4. \<^verbatim>\<open>handleHuggingFace\<close> tries the pool in order. An empty pool is the configuration
  failure, and no network call is made. When the URLs before one all fail and that one yields an
  image, its result is the adapter's and the trace ends with that attempt, whatever follows it
  in the pool. When every URL of a pool that is not empty fails, the adapter fails with the
  error of the last one. The loop alone, on no URL and with no error recorded, gives the
  generic failure.
\<close>

theorem handleHuggingFace_failover:
  fixes rt :: runtime and cfg :: hf_config and apiKey prompt_text :: jstring
    and reqBody :: chat_request and imgs :: "jstring list" and tr :: trace
  defines "hs \<equiv> hf_headers apiKey"
    and "b \<equiv> hf_request_body rt prompt_text (or_else (string_of (size_str reqBody)) (defaultSize cfg))"
    and "start \<equiv> hf_warned imgs tr"
    and "run \<equiv> handleHuggingFace rt cfg apiKey reqBody prompt_text imgs tr"
  shows
  "(apiUrls cfg = [] \<longrightarrow> run = (Inl HuggingFaceConfigError, start) \<and> fetched start = fetched tr)
   \<and> (\<forall>pre u post result.
         apiUrls cfg = pre @ u # post \<and> all_fail rt hs b pre start
         \<and> fst (try_url rt hs b u (trace_after rt hs b pre start)) = Inr result \<longrightarrow>
         run = (Inr result, snd (try_url rt hs b u (trace_after rt hs b pre start))))
   \<and> (apiUrls cfg \<noteq> [] \<and> all_fail rt hs b (apiUrls cfg) start \<longrightarrow>
         run = (fst (try_url rt hs b (last (apiUrls cfg))
                       (trace_after rt hs b (butlast (apiUrls cfg)) start)),
                trace_after rt hs b (apiUrls cfg) start)
         \<and> isl (fst run))
   \<and> failover rt hs b [] None start = (Inl HuggingFaceAllFailed, start)"
proof -
  have r: "run = (if apiUrls cfg = [] then (Inl HuggingFaceConfigError, start)
                  else failover rt hs b (apiUrls cfg) None start)"
    by (simp add: run_def handleHuggingFace_def hs_def b_def start_def Let_def)
  have 1: "apiUrls cfg = [] \<longrightarrow> run = (Inl HuggingFaceConfigError, start) \<and> fetched start = fetched tr"
    by (simp add: r start_def fetched_hf_warned)
  have 2: "run = (Inr result, snd (try_url rt hs b u (trace_after rt hs b pre start)))"
    if "apiUrls cfg = pre @ u # post" "all_fail rt hs b pre start"
      "fst (try_url rt hs b u (trace_after rt hs b pre start)) = Inr result"
    for pre u post result
    using failover_first_success[OF that(2,3), of post None] that(1) by (simp add: r)
  have 3: "run = (fst (try_url rt hs b (last (apiUrls cfg))
                       (trace_after rt hs b (butlast (apiUrls cfg)) start)),
                trace_after rt hs b (apiUrls cfg) start) \<and> isl (fst run)"
    if "apiUrls cfg \<noteq> []" "all_fail rt hs b (apiUrls cfg) start"
    using failover_all_fail[OF that(2,1), of None] that(1) by (simp add: r)
  have 4: "failover rt hs b [] None start = (Inl HuggingFaceAllFailed, start)"
    by simp
  from 1 2 3 4 show ?thesis by blast
qed


lemma try_url_refused:
  assumes "\<not> startsWith (base @ str ''/gradio_api/call/generate_image'') (str ''https://c'')"
  shows "fst (try_url flaky hs b base tr) = Inl (HuggingFaceApiError (500 + length (fetched tr)) [])
    \<and> length (fetched (snd (try_url flaky hs b base tr))) = Suc (length (fetched tr))"
  using assms
  by (simp add: try_url_def fetchWithTimeout_def flaky_def third_answers_def Let_def fetched_append)

lemma not_c: "\<not> startsWith (str ''https://a'' @ t) (str ''https://c'')"
  "\<not> startsWith (str ''https://b'' @ t) (str ''https://c'')"
  "\<not> startsWith (str ''https://d'' @ t) (str ''https://c'')"
  "startsWith (str ''https://c'' @ t) (str ''https://c'')"
  by (simp_all add: startsWith_def str_def)

lemma try_url_third:
  "fst (try_url flaky hs b (str ''https://c'') tr) =
      Inr (str ''![Generated Image]('' @ str ''https://img'' @ str '')'')
   \<and> length (fetched (snd (try_url flaky hs b (str ''https://c'') tr))) = Suc (Suc (length (fetched tr)))"
  by (simp add: try_url_def fetchWithTimeout_def flaky_def third_answers_def Let_def fetched_append
      not_c example_stream_result template_def)


lemma refused_a:
  "fst (try_url flaky hs b (str ''https://a'') tr) = Inl (HuggingFaceApiError (500 + length (fetched tr)) [])"
  "length (fetched (snd (try_url flaky hs b (str ''https://a'') tr))) = Suc (length (fetched tr))"
  using try_url_refused[OF not_c(1)] by blast+

lemma refused_b:
  "fst (try_url flaky hs b (str ''https://b'') tr) = Inl (HuggingFaceApiError (500 + length (fetched tr)) [])"
  "length (fetched (snd (try_url flaky hs b (str ''https://b'') tr))) = Suc (length (fetched tr))"
  using try_url_refused[OF not_c(2)] by blast+

lemma refused_d:
  "fst (try_url flaky hs b (str ''https://d'') tr) = Inl (HuggingFaceApiError (500 + length (fetched tr)) [])"
  "length (fetched (snd (try_url flaky hs b (str ''https://d'') tr))) = Suc (length (fetched tr))"
  using try_url_refused[OF not_c(3)] by blast+

text \<open>The first two URLs fail, the third succeeds after four network calls in all, and the
  fourth is not tried; on a pool of three failing URLs the third error is the adapter's.\<close>

theorem handleHuggingFace_failover_witness:
  "fst (handleHuggingFace flaky four_urls (str ''hf_key'') no_fields (str ''a red fox'') [] []) =
     Inr (str ''![Generated Image]('' @ str ''https://img'' @ str '')'')
   \<and> length (fetched (snd (handleHuggingFace flaky four_urls (str ''hf_key'') no_fields
                           (str ''a red fox'') [] []))) = 4
   \<and> fst (handleHuggingFace flaky (four_urls\<lparr>apiUrls := [str ''https://a'', str ''https://b'', str ''https://d'']\<rparr>)
            (str ''hf_key'') no_fields (str ''a red fox'') [] []) =
     Inl (HuggingFaceApiError 502 [])"
proof -
  define hs where "hs = hf_headers (str ''hf_key'')"
  define b where "b = hf_request_body flaky (str ''a red fox'')
      (or_else (string_of (size_str no_fields)) (defaultSize four_urls))"
  define start :: trace where "start = hf_warned [] []"
  have st: "fetched start = []" by (simp add: start_def hf_warned_def)
  have pool: "apiUrls four_urls = [str ''https://a'', str ''https://b''] @ str ''https://c'' # [str ''https://d'']"
    by (simp add: four_urls_def)
  have af: "all_fail flaky hs b [str ''https://a'', str ''https://b''] start"
    by (simp add: refused_a refused_b)
  have ok: "fst (try_url flaky hs b (str ''https://c'')
        (trace_after flaky hs b [str ''https://a'', str ''https://b''] start)) =
      Inr (str ''![Generated Image]('' @ str ''https://img'' @ str '')'')"
    using try_url_third by blast
  from handleHuggingFace_failover[where rt = flaky and cfg = four_urls and apiKey = "str ''hf_key''"
        and prompt_text = "str ''a red fox''" and reqBody = no_fields and imgs = "[]" and tr = "[]"]
  have "handleHuggingFace flaky four_urls (str ''hf_key'') no_fields (str ''a red fox'') [] [] =
      (Inr (str ''![Generated Image]('' @ str ''https://img'' @ str '')''),
       snd (try_url flaky hs b (str ''https://c'')
         (trace_after flaky hs b [str ''https://a'', str ''https://b''] start)))"
    using pool af ok unfolding hs_def b_def start_def by blast
  moreover have "length (fetched (snd (try_url flaky hs b (str ''https://c'')
         (trace_after flaky hs b [str ''https://a'', str ''https://b''] start)))) = 4"
    using try_url_third[of hs b "trace_after flaky hs b [str ''https://a'', str ''https://b''] start"]
    by (simp add: refused_a refused_b st)
  moreover have "fst (handleHuggingFace flaky
        (four_urls\<lparr>apiUrls := [str ''https://a'', str ''https://b'', str ''https://d'']\<rparr>)
        (str ''hf_key'') no_fields (str ''a red fox'') [] []) = Inl (HuggingFaceApiError 502 [])"
    by (simp add: handleHuggingFace_def Let_def hf_warned_def refused_a refused_b refused_d)
  ultimately show ?thesis by simp
qed

subsection \<open>The stream flag\<close>

lemma volcengine_request_ignores_stream:
  "volcengine_request cfg apiKey (rb\<lparr>stream := s\<rparr>) prompt_text processedImages =
   volcengine_request cfg apiKey rb prompt_text processedImages"
  by (simp add: volcengine_request_def)

lemma gitee_edit_request_ignores_stream:
  "gitee_edit_request cfg apiKey (rb\<lparr>stream := s\<rparr>) prompt_text binaryData mimeType =
   gitee_edit_request cfg apiKey rb prompt_text binaryData mimeType"
  by (simp add: gitee_edit_request_def)

lemma gitee_generate_request_ignores_stream:
  "gitee_generate_request cfg apiKey (rb\<lparr>stream := s\<rparr>) prompt_text =
   gitee_generate_request cfg apiKey rb prompt_text"
  by (simp add: gitee_generate_request_def)

lemma modelscope_submit_ignores_stream:
  "modelscope_submit cfg apiKey (rb\<lparr>stream := s\<rparr>) prompt_text =
   modelscope_submit cfg apiKey rb prompt_text"
  by (simp add: modelscope_submit_def)

lemma handleVolcEngine_ignores_stream:
  "handleVolcEngine rt cfg apiKey (rb\<lparr>stream := s\<rparr>) prompt_text imgs tr =
   handleVolcEngine rt cfg apiKey rb prompt_text imgs tr"
  unfolding handleVolcEngine_def volcengine_request_ignores_stream ..

lemma handleGitee_ignores_stream:
  "handleGitee rt cfg apiKey (rb\<lparr>stream := s\<rparr>) prompt_text imgs tr =
   handleGitee rt cfg apiKey rb prompt_text imgs tr"
  unfolding handleGitee_def gitee_edit_request_ignores_stream
    gitee_generate_request_ignores_stream ..

lemma handleModelScope_ignores_stream:
  "handleModelScope rt cfg apiKey (rb\<lparr>stream := s\<rparr>) prompt_text tr =
   handleModelScope rt cfg apiKey rb prompt_text tr"
  unfolding handleModelScope_def modelscope_submit_ignores_stream ..

lemma handleHuggingFace_ignores_stream:
  "handleHuggingFace rt cfg apiKey (rb\<lparr>stream := s\<rparr>) prompt_text imgs tr =
   handleHuggingFace rt cfg apiKey rb prompt_text imgs tr"
  by (simp add: handleHuggingFace_def)

lemma run_adapter_ignores_stream:
  "run_adapter rt p apiKey (rb\<lparr>stream := s\<rparr>) prompt_text imgs tr =
   run_adapter rt p apiKey rb prompt_text imgs tr"
  by (cases p)
     (simp_all add: run_adapter_def handleVolcEngine_ignores_stream handleGitee_ignores_stream
        handleModelScope_ignores_stream handleHuggingFace_ignores_stream)

lemma handle_trace_ignores_stream:
  "snd (handleChatCompletions rt (req\<lparr>body_json := Some (rb\<lparr>stream := s\<rparr>)\<rparr>) tr) =
   snd (handleChatCompletions rt (req\<lparr>body_json := Some rb\<rparr>) tr)"
  by (simp add: handleChatCompletions_def Let_def run_adapter_ignores_stream
      split: sum.splits)

lemma handle_not_streamed:
  "s \<noteq> Some True \<Longrightarrow> s' \<noteq> Some True \<Longrightarrow>
   handleChatCompletions rt (req\<lparr>body_json := Some (rb\<lparr>stream := s\<rparr>)\<rparr>) tr =
   handleChatCompletions rt (req\<lparr>body_json := Some (rb\<lparr>stream := s'\<rparr>)\<rparr>) tr"
  by (simp add: handleChatCompletions_def Let_def run_adapter_ignores_stream
      completion_response_def split: sum.splits)

lemma handle_streamed:
  "s \<noteq> Some True \<Longrightarrow>
   fst (handleChatCompletions rt (req\<lparr>body_json := Some (rb\<lparr>stream := Some True\<rparr>)\<rparr>) tr) =
   as_event_stream rt
     (fst (handleChatCompletions rt (req\<lparr>body_json := Some (rb\<lparr>stream := s\<rparr>)\<rparr>) tr))"
  by (simp add: handleChatCompletions_def Let_def run_adapter_ignores_stream
      completion_response_def stream_response_def as_event_stream_def split: sum.splits)

text \<open>
  Claim C9. Two requests that differ only in the \<^verbatim>\<open>stream\<close> flag are handled alike up to
  the envelope. The adapter that is run gives the same result and the same trace whatever the
  flag is, and the prompt and images extracted from the messages are the same. The trace of
  the whole handler, which holds the routing call with the provider chosen and every network
  call with its answer, is the same with the flag \<^verbatim>\<open>true\<close> as with any other value. The
  response with the flag \<^verbatim>\<open>true\<close> is the streamed envelope of the response without it: a
  chat completion becomes the content chunk with the same id, time, model and content, the end
  chunk and the terminal marker, and every other response, the errors among them, is
  unchanged. Any two values of the flag other than \<^verbatim>\<open>true\<close> give the same response and
  trace.
\<close>

theorem handleChatCompletions_stream_envelope:
  "run_adapter rt p apiKey (rb\<lparr>stream := s\<rparr>) prompt_text imgs tr =
     run_adapter rt p apiKey rb prompt_text imgs tr
   \<and> extractPromptAndImages (case messages (rb\<lparr>stream := s\<rparr>) of None \<Rightarrow> [] | Some ms \<Rightarrow> ms) =
       extractPromptAndImages (case messages rb of None \<Rightarrow> [] | Some ms \<Rightarrow> ms)
   \<and> snd (handleChatCompletions rt (req\<lparr>body_json := Some (rb\<lparr>stream := Some True\<rparr>)\<rparr>) tr) =
       snd (handleChatCompletions rt (req\<lparr>body_json := Some (rb\<lparr>stream := s\<rparr>)\<rparr>) tr)
   \<and> (s \<noteq> Some True \<longrightarrow>
        fst (handleChatCompletions rt (req\<lparr>body_json := Some (rb\<lparr>stream := Some True\<rparr>)\<rparr>) tr) =
        as_event_stream rt
          (fst (handleChatCompletions rt (req\<lparr>body_json := Some (rb\<lparr>stream := s\<rparr>)\<rparr>) tr)))
   \<and> (s \<noteq> Some True \<and> s' \<noteq> Some True \<longrightarrow>
        handleChatCompletions rt (req\<lparr>body_json := Some (rb\<lparr>stream := s\<rparr>)\<rparr>) tr =
        handleChatCompletions rt (req\<lparr>body_json := Some (rb\<lparr>stream := s'\<rparr>)\<rparr>) tr)"
proof -
  have traces: "snd (handleChatCompletions rt (req\<lparr>body_json := Some (rb\<lparr>stream := Some True\<rparr>)\<rparr>) tr) =
      snd (handleChatCompletions rt (req\<lparr>body_json := Some (rb\<lparr>stream := s\<rparr>)\<rparr>) tr)"
    by (simp only: handle_trace_ignores_stream)
  show ?thesis
    using traces handle_streamed [where s = s and rt = rt and req = req and rb = rb and tr = tr]
      handle_not_streamed [where s = s and s' = s' and rt = rt and req = req and rb = rb and tr = tr]
    by (simp add: run_adapter_ignores_stream)
qed

lemma startsWith_append: "startsWith s p \<Longrightarrow> startsWith (s @ t) p"
proof -
  assume a: "startsWith s p"
  have "length (take (length p) s) = length p"
    using a by (simp add: startsWith_def)
  then have "length p \<le> length s"
    by simp
  then show ?thesis using a by (simp add: startsWith_def)
qed

lemma try_url_answers:
  assumes "startsWith base (str ''https://c'')"
  shows "fst (try_url flaky hs b base tr) = Inr fox_markdown"
  using startsWith_append[OF assms]
  by (simp add: try_url_def fetchWithTimeout_def flaky_def third_answers_def Let_def
      example_stream_result template_def fox_markdown_def)

lemma pool_heads:
  "\<not> startsWith (str ''https://luca115-z-image-turbo.hf.space'' @ t) (str ''https://c'')"
  "\<not> startsWith (str ''https://mcp-tools-z-image-turbo.hf.space'' @ t) (str ''https://c'')"
  "startsWith (str ''https://cpuai-z-image-turbo.hf.space'') (str ''https://c'')"
  by (simp_all add: startsWith_def str_def)

lemma fox_generated:
  "fst (handleHuggingFace flaky HuggingFaceConfig k rb p [] tr) = Inr fox_markdown"
  using try_url_refused[OF pool_heads(1)] try_url_refused[OF pool_heads(2)]
    try_url_answers[OF pool_heads(3)]
  by (simp add: handleHuggingFace_def Let_def HuggingFaceConfig_def hf_warned_def)

lemma fox_key:
  "trim (replace_first (str ''Bearer '') [] (str ''Bearer hf_key'')) = str ''hf_key''"
  by (simp add: str_def startsWith_def trim_def is_js_space_def)

lemma fox_routed:
  "detectProvider (str ''hf_key'') = (HuggingFace, [(HuggingFace, str ''hf_k'')])"
  by (simp add: detectProvider_def truthy_str_def startsWith_def substring_def str_def)

lemma fox_extracted:
  "extractPromptAndImages [\<lparr>role = str ''user'', content = Text (str ''a red fox'')\<rparr>] =
     \<lparr>prompt = str ''a red fox'', images = []\<rparr>"
  by (simp add: extractPromptAndImages_def)

lemma fox_path:
  "str ''/v1/chat/completions'' \<noteq> str ''/''"
  "str ''/v1/chat/completions'' \<noteq> str ''/health''"
  by (simp_all add: str_def)

lemma flaky_stamp:
  "randomUUID flaky = []" "clock_seconds flaky n = 0"
  by (simp_all add: flaky_def)

lemma fox_completion:
  "fst (handleChatCompletions flaky (fox_request None) []) =
     \<lparr>status_code = 200, content_type = str ''application/json'',
      payload = ChatCompletion (str ''chatcmpl-'') 0 (str ''unknown-model'') fox_markdown\<rparr>"
  by (simp add: handleChatCompletions_def fox_request_def fox_body_def fox_path fox_key
      truthy_opt_def truthy_str_def string_of_def fox_routed fox_extracted run_adapter_def
      fox_generated completion_response_def Let_def or_else_def flaky_stamp str_nonempty)

text \<open>The request for a red fox on the backend whose third URL answers: the
  plain request is answered by a chat completion with the markdown of the image, the streamed
  one by the content chunk with the same markdown, the end chunk and the marker, and both
  leave the same trace.\<close>

theorem handleChatCompletions_stream_envelope_witness:
  "fst (handleChatCompletions flaky (fox_request None) []) =
     \<lparr>status_code = 200, content_type = str ''application/json'',
      payload = ChatCompletion (str ''chatcmpl-'') 0 (str ''unknown-model'') fox_markdown\<rparr>
   \<and> fst (handleChatCompletions flaky (fox_request (Some True)) []) =
     \<lparr>status_code = 200, content_type = str ''text/event-stream'',
      payload = EventStream
        [ContentChunk (str ''chatcmpl-'') 0 (str ''unknown-model'') fox_markdown,
         EndChunk (str ''chatcmpl-'') 0 (str ''unknown-model''),
         DoneMarker]\<rparr>
   \<and> snd (handleChatCompletions flaky (fox_request (Some True)) []) =
       snd (handleChatCompletions flaky (fox_request None) [])"
proof -
  have r: "fox_request s = (fox_request None)\<lparr>body_json := Some ((fox_body None)\<lparr>stream := s\<rparr>)\<rparr>" for s
    by (simp add: fox_request_def fox_body_def)
  from handleChatCompletions_stream_envelope [where rt = flaky and req = "fox_request None" and rb = "fox_body None"
      and tr = "[]" and s = None]
  have "fst (handleChatCompletions flaky (fox_request (Some True)) []) =
          as_event_stream flaky (fst (handleChatCompletions flaky (fox_request None) []))"
    and "snd (handleChatCompletions flaky (fox_request (Some True)) []) =
          snd (handleChatCompletions flaky (fox_request None) [])"
    unfolding r [symmetric] by simp_all
  then show ?thesis
    by (simp add: fox_completion as_event_stream_def flaky_stamp)
qed

end
